theory Spec2Isabelle
  imports Complex_Main "HOL-Library.Signed_Division"
begin

section \<open>The hypsys miniapp drivers\<close>

text \<open>
  The two drivers \<^verbatim>\<open>miniapps/hypsys/hypsys.cpp\<close> (serial) and
  \<^verbatim>\<open>miniapps/hypsys/phypsys.cpp\<close> (one MPI rank of the parallel run) are embedded
  as functions from a parsed command line to the list of things the process prints or
  writes and its exit status.

  Conventions of the embedding:
  \<^item> a C++ \<^verbatim>\<open>double\<close> is a \<^typ>\<open>real\<close> (exact arithmetic; rounding, infinities and
    NaN are not modelled), an \<^verbatim>\<open>int\<close> is an \<^typ>\<open>int\<close> (the step counter
    \<^verbatim>\<open>ti\<close> would overflow only after \<open>2^31\<close> steps), an mfem \<^verbatim>\<open>Vector\<close> is a list;
  \<^item> everything the drivers call but do not define (option parser, mesh and space
    construction, mass assembly, the physics class, the ODE solvers, the evolution
    operator) is a field of an environment record, so every theorem holds for
    arbitrary collaborators;
  \<^item> output is a list of events in program order;
  \<^item> a \<^verbatim>\<open>return\<close> from \<^verbatim>\<open>main\<close> is a value, the integer remainder by a zero
    \<^verbatim>\<open>VisSteps\<close> is a fault, and a time loop that never ends is \<open>None\<close>.
\<close>

type_synonym Vector = "real list"

subsection \<open>Configuration and command line\<close>

text \<open>The fields of \<^verbatim>\<open>Configuration\<close> that the drivers assign.\<close>

record Configuration =
  ProblemNum :: int
  ConfigNum :: int
  order :: int
  tFinal :: real
  dt :: real
  odeSolverType :: int
  VisSteps :: int
  precision :: int
  bbMin :: Vector
  bbMax :: Vector

text \<open>
  The result of \<^verbatim>\<open>args.Parse()\<close>: whether the command line was well formed
  (\<^verbatim>\<open>args.Good()\<close>) and, for every option registered with \<^verbatim>\<open>AddOption\<close>, the value
  given on the command line, if any. \<open>opt_pr\<close> is registered by the parallel driver only.
\<close>

record CommandLine =
  Good :: bool
  opt_p :: "int option"
  opt_c :: "int option"
  opt_m :: "string option"
  opt_r :: "int option"
  opt_pr :: "int option"
  opt_o :: "int option"
  opt_tf :: "real option"
  opt_dt :: "real option"
  opt_s :: "int option"
  opt_vs :: "int option"
  opt_e :: "int option"

text \<open>
  \<^verbatim>\<open>AddOption(&var, ...)\<close> followed by \<^verbatim>\<open>Parse()\<close>: a variable keeps the value it
  was initialised with unless its option is given.
\<close>

definition AddOption :: "'a \<Rightarrow> 'a option \<Rightarrow> 'a" where
  "AddOption var given = (case given of None \<Rightarrow> var | Some v \<Rightarrow> v)"

text \<open>
  The enumeration \<^verbatim>\<open>EvolutionScheme\<close> is declared in \<^verbatim>\<open>lib/fe_evol.hpp\<close>; the drivers
  write the option's integer through \<^verbatim>\<open>(int*)(&scheme)\<close>, so the variable is an integer
  here. The enumerators' values are those of the option's help text
  (\<^verbatim>\<open>0 - Standard Finite Element Approximation, 1 - Monolithic Convex Limiting\<close>).
\<close>

definition Standard :: int where
  "Standard = 0"

definition MCL :: int where
  "MCL = 1"

record Settings =
  config :: Configuration
  MeshFile :: string
  refinements :: int
  scheme :: int

record PSettings = Settings +
  prefinements :: int

text \<open>\<^verbatim>\<open>hypsys.cpp\<close>, lines 5 to 45: the defaults and the options that override them.\<close>

definition hypsys_options :: "CommandLine \<Rightarrow> Settings" where
  "hypsys_options args =
     \<lparr>config =
        \<lparr>ProblemNum = AddOption 0 (opt_p args),
         ConfigNum = AddOption 1 (opt_c args),
         order = AddOption 3 (opt_o args),
         tFinal = AddOption 1 (opt_tf args),
         dt = AddOption (1 / 1000) (opt_dt args),
         odeSolverType = AddOption 3 (opt_s args),
         VisSteps = AddOption 100 (opt_vs args),
         precision = 8,
         bbMin = [],
         bbMax = []\<rparr>,
      MeshFile = AddOption ''data/unstr.mesh'' (opt_m args),
      refinements = AddOption 1 (opt_r args),
      scheme = AddOption Standard (opt_e args)\<rparr>"

text \<open>\<^verbatim>\<open>phypsys.cpp\<close>, lines 8 to 51.\<close>

definition phypsys_options :: "CommandLine \<Rightarrow> PSettings" where
  "phypsys_options args =
     \<lparr>config =
        \<lparr>ProblemNum = AddOption 0 (opt_p args),
         ConfigNum = AddOption 1 (opt_c args),
         order = AddOption 3 (opt_o args),
         tFinal = AddOption 1 (opt_tf args),
         dt = AddOption (1 / 1000) (opt_dt args),
         odeSolverType = AddOption 3 (opt_s args),
         VisSteps = AddOption 100 (opt_vs args),
         precision = 8,
         bbMin = [],
         bbMax = []\<rparr>,
      MeshFile = AddOption ''data/unstr.mesh'' (opt_m args),
      refinements = AddOption 1 (opt_r args),
      scheme = AddOption Standard (opt_e args),
      prefinements = AddOption 0 (opt_pr args)\<rparr>"

subsection \<open>Collaborators\<close>

text \<open>What the drivers read of a \<^verbatim>\<open>HyperbolicSystem\<close>.\<close>

record HyperbolicSystem =
  u0 :: Vector
  SteadyState :: bool
  SolutionKnown :: bool
  FileOutput :: bool
  ComputeErrors :: "real \<Rightarrow> Vector \<Rightarrow> real list"

datatype ODESolver = ForwardEulerSolver | RK2Solver real | RK3SSPSolver

text \<open>
  The evolution operator as the drivers see it: the arguments of its constructor and
  the snapshot \<^verbatim>\<open>uOld\<close>, an empty vector until the driver sizes it.
\<close>

record FE_Evolution =
  evol_hyp :: HyperbolicSystem
  evol_scheme :: int
  evol_LumpedMassMat :: Vector
  uOld :: Vector

text \<open>
  Mesh, refinement, finite element spaces and the assembled lumped mass matrix
  (\<^verbatim>\<open>hypsys.cpp\<close>, lines 64 to 99): the bounding box, the number of unknowns that is
  printed, and the diagonal. The parallel driver prints \<^verbatim>\<open>GlobalTrueVSize()\<close> and
  sizes \<^verbatim>\<open>uOld\<close> with the local \<^verbatim>\<open>GetVSize()\<close>.
\<close>

record Discretization =
  BoundingBox :: "Vector \<times> Vector"
  ProblemSize :: nat
  LumpedMassMat :: Vector

record PDiscretization = Discretization +
  VSize :: nat

text \<open>
  \<^verbatim>\<open>ODESolver::Step(Vector &x, double &t, double &dt)\<close> of mfem takes its three
  arguments by reference: a step returns the new state, the new time and the step size
  it has used.
\<close>

record Stepped =
  step_x :: Vector
  step_t :: real
  step_dt :: real

text \<open>
  The environment: the physics constructor, \<^verbatim>\<open>odeSolver->Step(u, t, dt)\<close> and
  \<^verbatim>\<open>evol.ConvergenceCheck(dt, tol, u)\<close>, which returns the residual and the operator
  with its new \<^verbatim>\<open>uOld\<close>.
\<close>

record env =
  Advection :: "Configuration \<Rightarrow> HyperbolicSystem"
  Step :: "ODESolver \<Rightarrow> FE_Evolution \<Rightarrow> Vector \<Rightarrow> real \<Rightarrow> real \<Rightarrow> Stepped"
  ConvergenceCheck :: "FE_Evolution \<Rightarrow> real \<Rightarrow> real \<Rightarrow> Vector \<Rightarrow> real \<times> FE_Evolution"

record senv = env +
  Discretize :: "string \<Rightarrow> int \<Rightarrow> int \<Rightarrow> Discretization"

text \<open>
  One rank of the parallel run: its rank, its part of the discretization (mesh file,
  serial and parallel refinements, order), and the three \<^verbatim>\<open>MPI_Allreduce\<close> sums, each
  a function of this rank's summand.
\<close>

record penv = env +
  myid :: int
  PDiscretize :: "string \<Rightarrow> int \<Rightarrow> int \<Rightarrow> int \<Rightarrow> PDiscretization"
  Allreduce_InitialMass :: "real \<Rightarrow> real"
  Allreduce_DomainSize :: "real \<Rightarrow> real"
  Allreduce_FinalMass :: "real \<Rightarrow> real"

subsection \<open>Output\<close>

datatype event =
    PrintUsage
  | PrintOptions
  | UnknownODESolver int
  | NumberOfUnknowns nat
  | UnknownHyperbolicSystem int
  | Warning string
  | SaveMesh
  | SaveInitial Vector
  | VisualizeField Vector
  | TimeStep int real "real option"
  | MassDifference real
  | WriteErrors "real list"
  | SaveFinal Vector

datatype fault = DivisionByZero

datatype outcome = Returned "event list" int | Killed fault

subsection \<open>The time loop\<close>

text \<open>
  The variables of the loop: \<^verbatim>\<open>u\<close>, \<^verbatim>\<open>t\<close>, \<^verbatim>\<open>ti\<close>, \<^verbatim>\<open>done\<close>, \<^verbatim>\<open>dt\<close>, \<^verbatim>\<open>res\<close>, the
  evolution operator and the output so far. \<^verbatim>\<open>dt\<close> and \<^verbatim>\<open>res\<close> are uninitialised in
  the source and written before they are read; they start at 0 here.
\<close>

record loop_state =
  st_u :: Vector
  st_t :: real
  st_ti :: int
  st_done :: bool
  st_dt :: real
  st_res :: real
  st_evol :: FE_Evolution
  st_out :: "event list"

definition tol :: real where
  "tol = 1 / 10 ^ 12"

text \<open>
  \<^verbatim>\<open>hypsys.cpp\<close>, lines 152 to 166, and \<^verbatim>\<open>phypsys.cpp\<close>, lines 166 to 180 (the same
  text but for the operator's name): the step size, the step, and the convergence
  check on the stepped state.
\<close>

definition step_size :: "Configuration \<Rightarrow> loop_state \<Rightarrow> real" where
  "step_size cfg s = min (dt cfg) (tFinal cfg - st_t s)"

definition stepped ::
  "'a env_scheme \<Rightarrow> Configuration \<Rightarrow> ODESolver \<Rightarrow> loop_state \<Rightarrow> Stepped" where
  "stepped e cfg solver s = Step e solver (st_evol s) (st_u s) (st_t s) (step_size cfg s)"

definition checked ::
  "'a env_scheme \<Rightarrow> Configuration \<Rightarrow> ODESolver \<Rightarrow> loop_state \<Rightarrow> real \<times> FE_Evolution" where
  "checked e cfg solver s =
     ConvergenceCheck e (st_evol s) (step_dt (stepped e cfg solver s)) tol
       (step_x (stepped e cfg solver s))"

definition advance ::
  "'a env_scheme \<Rightarrow> Configuration \<Rightarrow> HyperbolicSystem \<Rightarrow> ODESolver \<Rightarrow> loop_state \<Rightarrow> loop_state" where
  "advance e cfg h solver s =
     (let s1 = s\<lparr>st_dt := step_dt (stepped e cfg solver s),
                 st_u := step_x (stepped e cfg solver s),
                 st_t := step_t (stepped e cfg solver s),
                 st_ti := st_ti s + 1,
                 st_done := (step_t (stepped e cfg solver s) \<ge> tFinal cfg - 1 / 10 ^ 8 * dt cfg)\<rparr>
      in if SteadyState h then
           (let s2 = s1\<lparr>st_res := fst (checked e cfg solver s),
                        st_evol := snd (checked e cfg solver s)\<rparr>
            in if st_res s2 < tol
               then s2\<lparr>st_done := True, st_u := uOld (st_evol s2)\<rparr>
               else s2)
         else s1)"

text \<open>The body of the \<^verbatim>\<open>if (done || ti % config.VisSteps == 0)\<close> of the serial driver.\<close>

definition print_step :: "HyperbolicSystem \<Rightarrow> loop_state \<Rightarrow> loop_state" where
  "print_step h s =
     s\<lparr>st_out := st_out s @
        [TimeStep (st_ti s) (st_t s) (if SteadyState h then Some (st_res s) else None),
         VisualizeField (st_u s)]\<rparr>"

text \<open>The same in the parallel driver: only rank 0 prints, every rank visualizes.\<close>

definition pprint_step :: "int \<Rightarrow> HyperbolicSystem \<Rightarrow> loop_state \<Rightarrow> loop_state" where
  "pprint_step rank h s =
     s\<lparr>st_out := st_out s @
        (if rank = 0
         then [TimeStep (st_ti s) (st_t s) (if SteadyState h then Some (st_res s) else None)]
         else []) @
        [VisualizeField (st_u s)]\<rparr>"

text \<open>
  The condition \<^verbatim>\<open>done || ti % config.VisSteps == 0\<close>: the remainder is evaluated only
  when \<^verbatim>\<open>done\<close> is false, truncates as in C++, and a zero divisor ends the process.
\<close>

definition visualize_now :: "Configuration \<Rightarrow> loop_state \<Rightarrow> fault + bool" where
  "visualize_now cfg s =
     (if st_done s then Inr True
      else if VisSteps cfg = 0 then Inl DivisionByZero
      else Inr (st_ti s smod VisSteps cfg = 0))"

definition loop_body ::
  "'a env_scheme \<Rightarrow> Configuration \<Rightarrow> HyperbolicSystem \<Rightarrow> ODESolver \<Rightarrow> loop_state
     \<Rightarrow> fault + loop_state" where
  "loop_body e cfg h solver s =
     (let s' = advance e cfg h solver s
      in case visualize_now cfg s' of
           Inl f \<Rightarrow> Inl f
         | Inr b \<Rightarrow> Inr (if b then print_step h s' else s'))"

definition ploop_body ::
  "'a penv_scheme \<Rightarrow> Configuration \<Rightarrow> HyperbolicSystem \<Rightarrow> ODESolver \<Rightarrow> loop_state
     \<Rightarrow> fault + loop_state" where
  "ploop_body e cfg h solver s =
     (let s' = advance e cfg h solver s
      in case visualize_now cfg s' of
           Inl f \<Rightarrow> Inl f
         | Inr b \<Rightarrow> Inr (if b then pprint_step (myid e) h s' else s'))"

text \<open>\<^verbatim>\<open>for (int ti = 0; !done;) { ... }\<close>\<close>

partial_function (option) time_loop ::
  "'a env_scheme \<Rightarrow> Configuration \<Rightarrow> HyperbolicSystem \<Rightarrow> ODESolver \<Rightarrow> loop_state
     \<Rightarrow> (fault + loop_state) option" where
  "time_loop e cfg h solver s =
     (if st_done s then Some (Inr s)
      else case loop_body e cfg h solver s of
             Inl f \<Rightarrow> Some (Inl f)
           | Inr s' \<Rightarrow> time_loop e cfg h solver s')"

partial_function (option) ptime_loop ::
  "'a penv_scheme \<Rightarrow> Configuration \<Rightarrow> HyperbolicSystem \<Rightarrow> ODESolver \<Rightarrow> loop_state
     \<Rightarrow> (fault + loop_state) option" where
  "ptime_loop e cfg h solver s =
     (if st_done s then Some (Inr s)
      else case ploop_body e cfg h solver s of
             Inl f \<Rightarrow> Some (Inl f)
           | Inr s' \<Rightarrow> ptime_loop e cfg h solver s')"

subsection \<open>Before and after the loop\<close>

text \<open>The \<^verbatim>\<open>switch (config.odeSolverType)\<close>; \<open>None\<close> is its \<^verbatim>\<open>default\<close> branch.\<close>

definition select_solver :: "int \<Rightarrow> ODESolver option" where
  "select_solver n =
     (if n = 1 then Some ForwardEulerSolver
      else if n = 2 then Some (RK2Solver 1)
      else if n = 3 then Some RK3SSPSolver
      else None)"

text \<open>The \<^verbatim>\<open>switch (config.ProblemNum)\<close>; \<open>None\<close> is its \<^verbatim>\<open>default\<close> branch.\<close>

definition select_problem :: "'a env_scheme \<Rightarrow> Configuration \<Rightarrow> HyperbolicSystem option" where
  "select_problem e cfg = (if ProblemNum cfg = 0 then Some (Advection e cfg) else None)"

text \<open>\<^verbatim>\<open>LumpedMassMat * u\<close>, the inner product of two vectors.\<close>

definition dot :: "Vector \<Rightarrow> Vector \<Rightarrow> real" where
  "dot a b = sum_list (map2 (*) a b)"

text \<open>
  The message of \<^verbatim>\<open>MFEM_WARNING\<close> at \<^verbatim>\<open>hypsys.cpp\<close>, line 112 (the macro prints and
  returns).
\<close>

definition pseudo_time_warning :: event where
  "pseudo_time_warning = Warning ''You should use forward Euler for pseudo time stepping.''"

text \<open>What the code after the loop reads of the code before it.\<close>

record Prepared =
  run_config :: Configuration
  run_solver :: ODESolver
  run_hyp :: HyperbolicSystem
  run_LumpedMassMat :: Vector
  run_InitialMass :: real
  run_state :: loop_state

text \<open>
  \<^verbatim>\<open>hypsys.cpp\<close>, lines 5 to 149: everything before the loop. \<open>Inl\<close> is a
  \<^verbatim>\<open>return -1\<close> with the output so far.
\<close>

definition hypsys_setup :: "'a senv_scheme \<Rightarrow> CommandLine \<Rightarrow> (event list \<times> int) + Prepared" where
  "hypsys_setup e args =
     (let opts = hypsys_options args in
      if \<not> Good args then Inl ([PrintUsage], - 1)
      else
        case select_solver (odeSolverType (config opts)) of
          None \<Rightarrow> Inl ([PrintOptions, UnknownODESolver (odeSolverType (config opts))], - 1)
        | Some odeSolver \<Rightarrow>
            (let disc = Discretize e (MeshFile opts) (refinements opts) (order (config opts));
                 cfg = (config opts)\<lparr>bbMin := fst (BoundingBox disc),
                                      bbMax := snd (BoundingBox disc)\<rparr>;
                 out1 = [PrintOptions, NumberOfUnknowns (ProblemSize disc)]
             in case select_problem e cfg of
                  None \<Rightarrow> Inl (out1 @ [UnknownHyperbolicSystem (ProblemNum cfg)], - 1)
                | Some h \<Rightarrow>
                    (let out2 = out1 @
                           (if odeSolverType cfg \<noteq> 1 \<and> SteadyState h
                            then [pseudo_time_warning] else []);
                         u = u0 h;
                         InitialMass = dot (LumpedMassMat disc) u;
                         out3 = out2 @
                           (if FileOutput h then [SaveMesh, SaveInitial u] else []) @
                           [VisualizeField u];
                         evol = \<lparr>evol_hyp = h, evol_scheme = scheme opts,
                                 evol_LumpedMassMat = LumpedMassMat disc, uOld = []\<rparr>;
                         evol' = (if SteadyState h
                                  then evol\<lparr>uOld := replicate (ProblemSize disc) 0\<rparr>
                                  else evol)
                     in Inr \<lparr>run_config = cfg, run_solver = odeSolver, run_hyp = h,
                             run_LumpedMassMat = LumpedMassMat disc,
                             run_InitialMass = InitialMass,
                             run_state =
                               \<lparr>st_u = u, st_t = 0, st_ti = 0, st_done = False, st_dt = 0,
                                st_res = 0, st_evol = evol', st_out = out3\<rparr>\<rparr>)))"

text \<open>\<^verbatim>\<open>hypsys.cpp\<close>, lines 183 to 199: the output after the loop.\<close>

definition hypsys_finish :: "Prepared \<Rightarrow> loop_state \<Rightarrow> event list" where
  "hypsys_finish p s =
     (let DomainSize = sum_list (run_LumpedMassMat p) in
      st_out s @
      [MassDifference
         (\<bar>run_InitialMass p - dot (run_LumpedMassMat p) (st_u s)\<bar> / DomainSize)] @
      (if SolutionKnown (run_hyp p) \<and> FileOutput (run_hyp p)
       then [WriteErrors (ComputeErrors (run_hyp p) DomainSize (st_u s))] else []) @
      (if FileOutput (run_hyp p) then [SaveFinal (st_u s)] else []))"

definition hypsys_main :: "'a senv_scheme \<Rightarrow> CommandLine \<Rightarrow> outcome option" where
  "hypsys_main e args =
     (case hypsys_setup e args of
        Inl (out, status) \<Rightarrow> Some (Returned out status)
      | Inr p \<Rightarrow>
          (case time_loop e (run_config p) (run_hyp p) (run_solver p) (run_state p) of
             None \<Rightarrow> None
           | Some (Inl f) \<Rightarrow> Some (Killed f)
           | Some (Inr s) \<Rightarrow> Some (Returned (hypsys_finish p s) 0)))"

text \<open>
  \<^verbatim>\<open>phypsys.cpp\<close>, lines 5 to 163. The usage, the options and the number of unknowns
  are printed by rank 0; the two \<^verbatim>\<open>Unknown ...\<close> messages and the warning by every
  rank. \<^verbatim>\<open>PrintAsOne\<close> and \<^verbatim>\<open>SaveAsOne\<close> are called on every rank.
\<close>

definition phypsys_setup :: "'a penv_scheme \<Rightarrow> CommandLine \<Rightarrow> (event list \<times> int) + Prepared" where
  "phypsys_setup e args =
     (let opts = phypsys_options args in
      if \<not> Good args then Inl (if myid e = 0 then [PrintUsage] else [], - 1)
      else
        (let out0 = (if myid e = 0 then [PrintOptions] else []) in
         case select_solver (odeSolverType (config opts)) of
           None \<Rightarrow> Inl (out0 @ [UnknownODESolver (odeSolverType (config opts))], - 1)
         | Some odeSolver \<Rightarrow>
             (let disc = PDiscretize e (MeshFile opts) (refinements opts) (prefinements opts)
                           (order (config opts));
                  cfg = (config opts)\<lparr>bbMin := fst (BoundingBox disc),
                                       bbMax := snd (BoundingBox disc)\<rparr>;
                  out1 = out0 @
                    (if myid e = 0 then [NumberOfUnknowns (ProblemSize disc)] else [])
              in case select_problem e cfg of
                   None \<Rightarrow> Inl (out1 @ [UnknownHyperbolicSystem (ProblemNum cfg)], - 1)
                 | Some h \<Rightarrow>
                     (let out2 = out1 @
                            (if odeSolverType cfg \<noteq> 1 \<and> SteadyState h
                             then [pseudo_time_warning] else []);
                          u = u0 h;
                          MassMPI = dot (LumpedMassMat disc) u;
                          InitialMass = Allreduce_InitialMass e MassMPI;
                          out3 = out2 @
                            (if FileOutput h then [SaveMesh, SaveInitial u] else []) @
                            [VisualizeField u];
                          pevol = \<lparr>evol_hyp = h, evol_scheme = scheme opts,
                                   evol_LumpedMassMat = LumpedMassMat disc, uOld = []\<rparr>;
                          pevol' = (if SteadyState h
                                    then pevol\<lparr>uOld := replicate (VSize disc) 0\<rparr>
                                    else pevol)
                      in Inr \<lparr>run_config = cfg, run_solver = odeSolver, run_hyp = h,
                              run_LumpedMassMat = LumpedMassMat disc,
                              run_InitialMass = InitialMass,
                              run_state =
                                \<lparr>st_u = u, st_t = 0, st_ti = 0, st_done = False, st_dt = 0,
                                 st_res = 0, st_evol = pevol', st_out = out3\<rparr>\<rparr>))))"

text \<open>\<^verbatim>\<open>phypsys.cpp\<close>, lines 200 to 228.\<close>

definition phypsys_finish :: "'a penv_scheme \<Rightarrow> Prepared \<Rightarrow> loop_state \<Rightarrow> event list" where
  "phypsys_finish e p s =
     (let DomainSize = Allreduce_DomainSize e (sum_list (run_LumpedMassMat p));
          FinalMass = Allreduce_FinalMass e (dot (run_LumpedMassMat p) (st_u s)) in
      st_out s @
      (if myid e = 0
       then [MassDifference (\<bar>run_InitialMass p - FinalMass\<bar> / DomainSize)] else []) @
      (if SolutionKnown (run_hyp p) \<and> FileOutput (run_hyp p) \<and> myid e = 0
       then [WriteErrors (ComputeErrors (run_hyp p) DomainSize (st_u s))] else []) @
      (if FileOutput (run_hyp p) then [SaveFinal (st_u s)] else []))"

definition phypsys_main :: "'a penv_scheme \<Rightarrow> CommandLine \<Rightarrow> outcome option" where
  "phypsys_main e args =
     (case phypsys_setup e args of
        Inl (out, status) \<Rightarrow> Some (Returned out status)
      | Inr p \<Rightarrow>
          (case ptime_loop e (run_config p) (run_hyp p) (run_solver p) (run_state p) of
             None \<Rightarrow> None
           | Some (Inl f) \<Rightarrow> Some (Killed f)
           | Some (Inr s) \<Rightarrow> Some (Returned (phypsys_finish e p s) 0)))"

section \<open>The evolution operator, from the specification\<close>

subsection \<open>The convergence check\<close>




subsection \<open>The limited antidiffusive fluxes\<close>

text \<open>
  Modelled from the spec: steps 3 to 5 of the MCL scheme of section 4.3 (the evolution
  operator of \<^verbatim>\<open>lib/fe_evol.hpp\<close> is not among the sources). What the spec leaves
  open is a field of the record: the lumped masses, the unordered neighbour pairs
  (each listed once), the low-order update, the antidiffusive flux of a pair (``the
  difference between the high-order flux and the low-order flux for that pair'',
  computed ``once per unordered pair'') and the limiter of one endpoint (``the largest
  \<open>\<alpha>\<close> such that applying \<open>\<alpha>\<cdot>F\<close> keeps that endpoint's provisional low-order value
  inside its own bounds'', whose closed form section 9 leaves to the implementer),
  given the state, the endpoint and the flux applied to it.
\<close>

record MCL_Operator =
  mass :: Vector
  pairs :: "(nat \<times> nat) list"
  lowOrderUpdate :: "Vector \<Rightarrow> Vector"
  antidiffusiveFlux :: "Vector \<Rightarrow> nat \<times> nat \<Rightarrow> real"
  endpointAlpha :: "Vector \<Rightarrow> nat \<Rightarrow> real \<Rightarrow> real"

text \<open>
  Step 3: the flux of a pair is applied ``with opposite sign to each endpoint''.
  \<open>F_ij op u i j\<close> is the flux dof \<open>i\<close> receives from its neighbour \<open>j\<close>.
\<close>

definition F_ij :: "MCL_Operator \<Rightarrow> Vector \<Rightarrow> nat \<Rightarrow> nat \<Rightarrow> real" where
  "F_ij op u i j =
     (if (i, j) \<in> set (pairs op) then antidiffusiveFlux op u (i, j)
      else if (j, i) \<in> set (pairs op) then - antidiffusiveFlux op u (j, i)
      else 0)"

text \<open>Step 4: ``the pairwise minimum of the two endpoint-derived \<open>\<alpha>\<close>'s''.\<close>

definition alpha_ij :: "MCL_Operator \<Rightarrow> Vector \<Rightarrow> nat \<Rightarrow> nat \<Rightarrow> real" where
  "alpha_ij op u i j =
     min (endpointAlpha op u i (F_ij op u i j)) (endpointAlpha op u j (F_ij op u j i))"

text \<open>
  Step 5: \<open>dState/dt = lowOrderUpdate + \<Sum>\<^sub>j \<alpha>\<^sub>i\<^sub>j \<cdot> F\<^sub>i\<^sub>j / mass\<^sub>i\<close>, the sum over the
  neighbours \<open>j\<close> of \<open>i\<close>, that is over the pairs \<open>i\<close> is an endpoint of.
\<close>

definition limited_flux_sum :: "MCL_Operator \<Rightarrow> Vector \<Rightarrow> nat \<Rightarrow> real" where
  "limited_flux_sum op u i =
     sum_list (map (\<lambda>p. (if fst p = i then alpha_ij op u i (snd p) * F_ij op u i (snd p) else 0) +
                         (if snd p = i then alpha_ij op u i (fst p) * F_ij op u i (fst p) else 0))
                 (pairs op))"

definition computeDerivative_MCL :: "MCL_Operator \<Rightarrow> Vector \<Rightarrow> Vector" where
  "computeDerivative_MCL op u =
     map (\<lambda>i. lowOrderUpdate op u ! i + limited_flux_sum op u i / mass op ! i)
       [0 ..< length u]"

text \<open>The contribution of one pair to both of its endpoints.\<close>

definition pair_contribution :: "MCL_Operator \<Rightarrow> Vector \<Rightarrow> nat \<times> nat \<Rightarrow> real" where
  "pair_contribution op u p =
     alpha_ij op u (fst p) (snd p) * F_ij op u (fst p) (snd p) +
     alpha_ij op u (snd p) (fst p) * F_ij op u (snd p) (fst p)"

section \<open>Example runs\<close>

text \<open>
  Concrete collaborators on which the theorems below are instantiated: a problem with
  the given flags and initial state, an integrator that leaves the state as it is and
  adds the step to the time, a space with two unknowns of mass 1, and, for the
  parallel driver, a second rank that contributes the same to every sum.
\<close>

definition example_hyp :: "bool \<Rightarrow> bool \<Rightarrow> bool \<Rightarrow> Vector \<Rightarrow> HyperbolicSystem" where
  "example_hyp steady known fo v =
     \<lparr>u0 = v, SteadyState = steady, SolutionKnown = known, FileOutput = fo,
      ComputeErrors = (\<lambda>DomainSize u. [dot u u / DomainSize])\<rparr>"

definition example_env ::
  "HyperbolicSystem \<Rightarrow> (FE_Evolution \<Rightarrow> real \<Rightarrow> real \<Rightarrow> Vector \<Rightarrow> real \<times> FE_Evolution) \<Rightarrow> senv" where
  "example_env h check =
     \<lparr>Advection = (\<lambda>cfg. h),
      Step = (\<lambda>solver ev u t d. \<lparr>step_x = u, step_t = t + d, step_dt = d\<rparr>),
      ConvergenceCheck = check,
      Discretize = (\<lambda>mesh r ord. \<lparr>BoundingBox = ([0], [1]), ProblemSize = 2,
                                  LumpedMassMat = [1, 1]\<rparr>)\<rparr>"

definition example_penv ::
  "int \<Rightarrow> HyperbolicSystem \<Rightarrow> (FE_Evolution \<Rightarrow> real \<Rightarrow> real \<Rightarrow> Vector \<Rightarrow> real \<times> FE_Evolution) \<Rightarrow> penv" where
  "example_penv rank h check =
     \<lparr>Advection = (\<lambda>cfg. h),
      Step = (\<lambda>solver ev u t d. \<lparr>step_x = u, step_t = t + d, step_dt = d\<rparr>),
      ConvergenceCheck = check,
      myid = rank,
      PDiscretize = (\<lambda>mesh r pr ord. \<lparr>BoundingBox = ([0], [1]), ProblemSize = 4,
                                      LumpedMassMat = [1, 1], VSize = 2\<rparr>),
      Allreduce_InitialMass = (\<lambda>x. x + x),
      Allreduce_DomainSize = (\<lambda>x. x + x),
      Allreduce_FinalMass = (\<lambda>x. x + x)\<rparr>"

text \<open>A check that always reports the residual 0 and stores the state.\<close>

definition example_check :: "FE_Evolution \<Rightarrow> real \<Rightarrow> real \<Rightarrow> Vector \<Rightarrow> real \<times> FE_Evolution" where
  "example_check ev d tolerance u = (0, ev\<lparr>uOld := u\<rparr>)"


text \<open>A well-formed command line without options, and one whose run is a single step.\<close>

definition no_options :: CommandLine where
  "no_options =
     \<lparr>Good = True, opt_p = None, opt_c = None, opt_m = None, opt_r = None, opt_pr = None,
      opt_o = None, opt_tf = None, opt_dt = None, opt_s = None, opt_vs = None,
      opt_e = None\<rparr>"

definition one_step :: CommandLine where
  "one_step = no_options\<lparr>opt_tf := Some 1, opt_dt := Some 1\<rparr>"

text \<open>A run with final time 1 and time step \<open>3/10\<close>, and a state of the loop at time \<open>t\<close>.\<close>

definition short_steps :: CommandLine where
  "short_steps = no_options\<lparr>opt_tf := Some 1, opt_dt := Some (3 / 10), opt_s := Some 1\<rparr>"

definition example_state :: "HyperbolicSystem \<Rightarrow> real \<Rightarrow> loop_state" where
  "example_state h t =
     \<lparr>st_u = u0 h, st_t = t, st_ti = 0, st_done = False, st_dt = 0, st_res = 0,
      st_evol = \<lparr>evol_hyp = h, evol_scheme = Standard, evol_LumpedMassMat = [1, 1],
                 uOld = [0, 0]\<rparr>,
      st_out = []\<rparr>"

text \<open>
  Three dofs in a row with the pairs \<open>(0, 1)\<close> and \<open>(1, 2)\<close>: the flux of a pair is the
  difference of its end values, the endpoint limiter halves every flux at dof 1 and
  leaves it as it is elsewhere, and the low-order update is zero.
\<close>

definition example_MCL :: MCL_Operator where
  "example_MCL =
     \<lparr>mass = [1, 2, 1],
      pairs = [(0, 1), (1, 2)],
      lowOrderUpdate = (\<lambda>u. [0, 0, 0]),
      antidiffusiveFlux = (\<lambda>u p. u ! snd p - u ! fst p),
      endpointAlpha = (\<lambda>u i f. if i = 1 then 1 / 2 else 1)\<rparr>"

section \<open>Properties of the drivers\<close>

subsection \<open>One iteration of the loop\<close>

text \<open>
  What one pass through the body of the loop does to each variable.
\<close>

lemma visualize_now_done: "st_done s \<Longrightarrow> visualize_now cfg s = Inr True"
  by (simp add: visualize_now_def)

lemma print_step_fields:
  "st_u (print_step h s) = st_u s" "st_t (print_step h s) = st_t s"
  "st_ti (print_step h s) = st_ti s" "st_done (print_step h s) = st_done s"
  "st_dt (print_step h s) = st_dt s" "st_res (print_step h s) = st_res s"
  "st_evol (print_step h s) = st_evol s"
  by (simp_all add: print_step_def)

lemma pprint_step_fields:
  "st_u (pprint_step r h s) = st_u s" "st_t (pprint_step r h s) = st_t s"
  "st_ti (pprint_step r h s) = st_ti s" "st_done (pprint_step r h s) = st_done s"
  "st_dt (pprint_step r h s) = st_dt s" "st_res (pprint_step r h s) = st_res s"
  "st_evol (pprint_step r h s) = st_evol s"
  by (simp_all add: pprint_step_def)

lemma advance_fields:
  "st_dt (advance e cfg h solver s) = step_dt (stepped e cfg solver s)"
  "st_t (advance e cfg h solver s) = step_t (stepped e cfg solver s)"
  "st_ti (advance e cfg h solver s) = st_ti s + 1"
  "st_out (advance e cfg h solver s) = st_out s"
  by (simp_all add: advance_def Let_def)

lemma advance_steady:
  assumes "SteadyState h"
  shows "st_res (advance e cfg h solver s) = fst (checked e cfg solver s)"
    and "st_evol (advance e cfg h solver s) = snd (checked e cfg solver s)"
    and "fst (checked e cfg solver s) < tol \<Longrightarrow> st_done (advance e cfg h solver s)"
    and "fst (checked e cfg solver s) < tol \<Longrightarrow>
           st_u (advance e cfg h solver s) = uOld (snd (checked e cfg solver s))"
    and "\<not> fst (checked e cfg solver s) < tol \<Longrightarrow>
           st_u (advance e cfg h solver s) = step_x (stepped e cfg solver s)"
    and "\<not> fst (checked e cfg solver s) < tol \<Longrightarrow>
           st_done (advance e cfg h solver s)
             = (step_t (stepped e cfg solver s) \<ge> tFinal cfg - 1 / 10 ^ 8 * dt cfg)"
  using assms by (simp_all add: advance_def Let_def)


lemma advance_unsteady:
  assumes "\<not> SteadyState h"
  shows "st_u (advance e cfg h solver s) = step_x (stepped e cfg solver s)"
    and "st_evol (advance e cfg h solver s) = st_evol s"
    and "st_done (advance e cfg h solver s)
           = (step_t (stepped e cfg solver s) \<ge> tFinal cfg - 1 / 10 ^ 8 * dt cfg)"
  using assms by (simp_all add: advance_def Let_def)

lemma advance_done_at_end:
  assumes "step_t (stepped e cfg solver s) \<ge> tFinal cfg - 1 / 10 ^ 8 * dt cfg"
  shows "st_done (advance e cfg h solver s)"
  using assms by (simp add: advance_def Let_def)

lemma advance_time_bound:
  assumes "\<forall>ev u t d. step_t (Step e solver ev u t d) \<le> t + d"
  shows "st_t (advance e cfg h solver s) \<le> tFinal cfg"
proof -
  have "step_t (stepped e cfg solver s) \<le> st_t s + step_size cfg s"
    using assms by (simp add: stepped_def)
  also have "\<dots> \<le> st_t s + (tFinal cfg - st_t s)"
    by (simp add: step_size_def)
  finally show ?thesis
    by (simp add: advance_fields)
qed

lemma loop_body_cases:
  assumes "loop_body e cfg h solver s = Inr s'"
  shows "s' = print_step h (advance e cfg h solver s) \<or> s' = advance e cfg h solver s"
  using assms by (auto simp: loop_body_def Let_def split: sum.splits if_splits)

lemma ploop_body_cases:
  assumes "ploop_body e cfg h solver s = Inr s'"
  shows "s' = pprint_step (myid e) h (advance e cfg h solver s) \<or> s' = advance e cfg h solver s"
  using assms by (auto simp: ploop_body_def Let_def split: sum.splits if_splits)

lemma loop_body_out:
  assumes "loop_body e cfg h solver s = Inr s'"
  shows "\<exists>ys. st_out s' = st_out s @ ys"
  using loop_body_cases [OF assms] by (auto simp: print_step_def advance_fields)

lemma ploop_body_out:
  assumes "ploop_body e cfg h solver s = Inr s'"
  shows "\<exists>ys. st_out s' = st_out s @ ys"
  using ploop_body_cases [OF assms] by (auto simp: pprint_step_def advance_fields)

subsection \<open>The loop\<close>

text \<open>
  The loop ends with the first iteration that sets \<^verbatim>\<open>done\<close>; a property every
  iteration keeps holds when the loop returns.
\<close>

lemma time_loop_last:
  assumes "\<not> st_done s" and "st_done (advance e cfg h solver s)"
  shows "time_loop e cfg h solver s = Some (Inr (print_step h (advance e cfg h solver s)))"
proof -
  have "loop_body e cfg h solver s = Inr (print_step h (advance e cfg h solver s))"
    using assms(2) by (simp add: loop_body_def Let_def visualize_now_done)
  moreover have "time_loop e cfg h solver (print_step h (advance e cfg h solver s))
      = Some (Inr (print_step h (advance e cfg h solver s)))"
    using assms(2) by (subst time_loop.simps) (simp add: print_step_fields)
  ultimately show ?thesis
    using assms(1) by (subst time_loop.simps) simp
qed

lemma ptime_loop_last:
  assumes "\<not> st_done s" and "st_done (advance e cfg h solver s)"
  shows "ptime_loop e cfg h solver s = Some (Inr (pprint_step (myid e) h (advance e cfg h solver s)))"
proof -
  have "ploop_body e cfg h solver s = Inr (pprint_step (myid e) h (advance e cfg h solver s))"
    using assms(2) by (simp add: ploop_body_def Let_def visualize_now_done)
  moreover have "ptime_loop e cfg h solver (pprint_step (myid e) h (advance e cfg h solver s))
      = Some (Inr (pprint_step (myid e) h (advance e cfg h solver s)))"
    using assms(2) by (subst ptime_loop.simps) (simp add: pprint_step_fields)
  ultimately show ?thesis
    using assms(1) by (subst ptime_loop.simps) simp
qed

lemma time_loop_invariant_aux:
  assumes "time_loop e cfg h solver s = Some r"
  shows "\<forall>s'. r = Inr s' \<longrightarrow> I s \<longrightarrow>
        (\<forall>a b. I a \<longrightarrow> \<not> st_done a \<longrightarrow> loop_body e cfg h solver a = Inr b \<longrightarrow> I b) \<longrightarrow>
        I s' \<and> st_done s'"
proof (rule time_loop.raw_induct [where P = "\<lambda>e cfg h solver s r. \<forall>s'. r = Inr s' \<longrightarrow> I s \<longrightarrow>
        (\<forall>a b. I a \<longrightarrow> \<not> st_done a \<longrightarrow> loop_body e cfg h solver a = Inr b \<longrightarrow> I b) \<longrightarrow>
        I s' \<and> st_done s'", OF _ assms])
  fix loop :: "'a env_scheme \<Rightarrow> Configuration \<Rightarrow> HyperbolicSystem \<Rightarrow> ODESolver \<Rightarrow> loop_state
     \<Rightarrow> (fault + loop_state) option"
  fix e cfg h solver s r
  assume IH: "\<And>e cfg h solver s r. loop e cfg h solver s = Some r \<Longrightarrow>
     \<forall>s'. r = Inr s' \<longrightarrow> I s \<longrightarrow>
        (\<forall>a b. I a \<longrightarrow> \<not> st_done a \<longrightarrow> loop_body e cfg h solver a = Inr b \<longrightarrow> I b) \<longrightarrow>
        I s' \<and> st_done s'"
  assume eq: "(if st_done s then Some (Inr s)
      else case loop_body e cfg h solver s of
             Inl f \<Rightarrow> Some (Inl f)
           | Inr s' \<Rightarrow> loop e cfg h solver s') = Some r"
  show "\<forall>s'. r = Inr s' \<longrightarrow> I s \<longrightarrow>
        (\<forall>a b. I a \<longrightarrow> \<not> st_done a \<longrightarrow> loop_body e cfg h solver a = Inr b \<longrightarrow> I b) \<longrightarrow>
        I s' \<and> st_done s'"
  proof (cases "st_done s")
    case True
    with eq have "r = Inr s" by simp
    with True show ?thesis by simp
  next
    case False
    show ?thesis
    proof (cases "loop_body e cfg h solver s")
      case (Inl f)
      with eq False have "r = Inl f" by simp
      then show ?thesis by simp
    next
      case (Inr s1)
      with eq False have "loop e cfg h solver s1 = Some r" by simp
      from IH [OF this] Inr False show ?thesis by blast
    qed
  qed
qed

lemma time_loop_invariant:
  assumes "time_loop e cfg h solver s = Some (Inr s')" and "I s"
    and "\<And>a b. I a \<Longrightarrow> \<not> st_done a \<Longrightarrow> loop_body e cfg h solver a = Inr b \<Longrightarrow> I b"
  shows "I s' \<and> st_done s'"
  using time_loop_invariant_aux [OF assms(1), of I] assms(2,3) by blast

lemma ptime_loop_invariant_aux:
  assumes "ptime_loop e cfg h solver s = Some r"
  shows "\<forall>s'. r = Inr s' \<longrightarrow> I s \<longrightarrow>
        (\<forall>a b. I a \<longrightarrow> \<not> st_done a \<longrightarrow> ploop_body e cfg h solver a = Inr b \<longrightarrow> I b) \<longrightarrow>
        I s' \<and> st_done s'"
proof (rule ptime_loop.raw_induct [where P = "\<lambda>e cfg h solver s r. \<forall>s'. r = Inr s' \<longrightarrow> I s \<longrightarrow>
        (\<forall>a b. I a \<longrightarrow> \<not> st_done a \<longrightarrow> ploop_body e cfg h solver a = Inr b \<longrightarrow> I b) \<longrightarrow>
        I s' \<and> st_done s'", OF _ assms])
  fix loop :: "'a penv_scheme \<Rightarrow> Configuration \<Rightarrow> HyperbolicSystem \<Rightarrow> ODESolver \<Rightarrow> loop_state
     \<Rightarrow> (fault + loop_state) option"
  fix e cfg h solver s r
  assume IH: "\<And>e cfg h solver s r. loop e cfg h solver s = Some r \<Longrightarrow>
     \<forall>s'. r = Inr s' \<longrightarrow> I s \<longrightarrow>
        (\<forall>a b. I a \<longrightarrow> \<not> st_done a \<longrightarrow> ploop_body e cfg h solver a = Inr b \<longrightarrow> I b) \<longrightarrow>
        I s' \<and> st_done s'"
  assume eq: "(if st_done s then Some (Inr s)
      else case ploop_body e cfg h solver s of
             Inl f \<Rightarrow> Some (Inl f)
           | Inr s' \<Rightarrow> loop e cfg h solver s') = Some r"
  show "\<forall>s'. r = Inr s' \<longrightarrow> I s \<longrightarrow>
        (\<forall>a b. I a \<longrightarrow> \<not> st_done a \<longrightarrow> ploop_body e cfg h solver a = Inr b \<longrightarrow> I b) \<longrightarrow>
        I s' \<and> st_done s'"
  proof (cases "st_done s")
    case True
    with eq have "r = Inr s" by simp
    with True show ?thesis by simp
  next
    case False
    show ?thesis
    proof (cases "ploop_body e cfg h solver s")
      case (Inl f)
      with eq False have "r = Inl f" by simp
      then show ?thesis by simp
    next
      case (Inr s1)
      with eq False have "loop e cfg h solver s1 = Some r" by simp
      from IH [OF this] Inr False show ?thesis by blast
    qed
  qed
qed

lemma ptime_loop_invariant:
  assumes "ptime_loop e cfg h solver s = Some (Inr s')" and "I s"
    and "\<And>a b. I a \<Longrightarrow> \<not> st_done a \<Longrightarrow> ploop_body e cfg h solver a = Inr b \<Longrightarrow> I b"
  shows "I s' \<and> st_done s'"
  using ptime_loop_invariant_aux [OF assms(1), of I] assms(2,3) by blast

lemma time_loop_out:
  assumes "time_loop e cfg h solver s = Some (Inr s')"
  shows "\<exists>ys. st_out s' = st_out s @ ys"
proof -
  have "(\<exists>ys. st_out s' = st_out s @ ys) \<and> st_done s'"
  proof (rule time_loop_invariant [OF assms, of "\<lambda>a. \<exists>ys. st_out a = st_out s @ ys"])
    show "\<exists>ys. st_out s = st_out s @ ys" by simp
  next
    fix a b
    assume "\<exists>ys. st_out a = st_out s @ ys" and "loop_body e cfg h solver a = Inr b"
    then show "\<exists>ys. st_out b = st_out s @ ys"
      using loop_body_out [of e cfg h solver a b] by auto
  qed
  then show ?thesis ..
qed

lemma ptime_loop_out:
  assumes "ptime_loop e cfg h solver s = Some (Inr s')"
  shows "\<exists>ys. st_out s' = st_out s @ ys"
proof -
  have "(\<exists>ys. st_out s' = st_out s @ ys) \<and> st_done s'"
  proof (rule ptime_loop_invariant [OF assms, of "\<lambda>a. \<exists>ys. st_out a = st_out s @ ys"])
    show "\<exists>ys. st_out s = st_out s @ ys" by simp
  next
    fix a b
    assume "\<exists>ys. st_out a = st_out s @ ys" and "ploop_body e cfg h solver a = Inr b"
    then show "\<exists>ys. st_out b = st_out s @ ys"
      using ploop_body_out [of e cfg h solver a b] by auto
  qed
  then show ?thesis ..
qed

lemma time_loop_no_errors:
  assumes "time_loop e cfg h solver s = Some (Inr s')"
    and "\<forall>x. WriteErrors x \<notin> set (st_out s)"
  shows "\<forall>x. WriteErrors x \<notin> set (st_out s')"
proof -
  have "(\<forall>x. WriteErrors x \<notin> set (st_out s')) \<and> st_done s'"
  proof (rule time_loop_invariant [OF assms(1), of "\<lambda>a. \<forall>x. WriteErrors x \<notin> set (st_out a)"])
    show "\<forall>x. WriteErrors x \<notin> set (st_out s)" by (rule assms(2))
  next
    fix a b
    assume "\<forall>x. WriteErrors x \<notin> set (st_out a)" and "loop_body e cfg h solver a = Inr b"
    then show "\<forall>x. WriteErrors x \<notin> set (st_out b)"
      using loop_body_cases [of e cfg h solver a b]
      by (auto simp: print_step_def advance_fields)
  qed
  then show ?thesis ..
qed

lemma ptime_loop_no_errors:
  assumes "ptime_loop e cfg h solver s = Some (Inr s')"
    and "\<forall>x. WriteErrors x \<notin> set (st_out s)"
  shows "\<forall>x. WriteErrors x \<notin> set (st_out s')"
proof -
  have "(\<forall>x. WriteErrors x \<notin> set (st_out s')) \<and> st_done s'"
  proof (rule ptime_loop_invariant [OF assms(1), of "\<lambda>a. \<forall>x. WriteErrors x \<notin> set (st_out a)"])
    show "\<forall>x. WriteErrors x \<notin> set (st_out s)" by (rule assms(2))
  next
    fix a b
    assume "\<forall>x. WriteErrors x \<notin> set (st_out a)" and "ploop_body e cfg h solver a = Inr b"
    then show "\<forall>x. WriteErrors x \<notin> set (st_out b)"
      using ploop_body_cases [of e cfg h solver a b]
      by (auto simp: pprint_step_def advance_fields)
  qed
  then show ?thesis ..
qed

lemma time_loop_time_bound:
  assumes "\<forall>ev u t d. step_t (Step e solver ev u t d) \<le> t + d"
    and "time_loop e cfg h solver s = Some (Inr s')" and "\<not> st_done s"
  shows "st_t s' \<le> tFinal cfg"
proof -
  have "(s' = s \<or> st_t s' \<le> tFinal cfg) \<and> st_done s'"
  proof (rule time_loop_invariant [OF assms(2), of "\<lambda>a. a = s \<or> st_t a \<le> tFinal cfg"])
    show "s = s \<or> st_t s \<le> tFinal cfg" by simp
  next
    fix a b
    assume "loop_body e cfg h solver a = Inr b"
    then have "st_t b = st_t (advance e cfg h solver a)"
      using loop_body_cases [of e cfg h solver a b] by (auto simp: print_step_fields)
    then show "b = s \<or> st_t b \<le> tFinal cfg"
      using advance_time_bound [OF assms(1)] by simp
  qed
  with assms(3) show ?thesis by auto
qed

lemma ptime_loop_time_bound:
  assumes "\<forall>ev u t d. step_t (Step e solver ev u t d) \<le> t + d"
    and "ptime_loop e cfg h solver s = Some (Inr s')" and "\<not> st_done s"
  shows "st_t s' \<le> tFinal cfg"
proof -
  have "(s' = s \<or> st_t s' \<le> tFinal cfg) \<and> st_done s'"
  proof (rule ptime_loop_invariant [OF assms(2), of "\<lambda>a. a = s \<or> st_t a \<le> tFinal cfg"])
    show "s = s \<or> st_t s \<le> tFinal cfg" by simp
  next
    fix a b
    assume "ploop_body e cfg h solver a = Inr b"
    then have "st_t b = st_t (advance e cfg h solver a)"
      using ploop_body_cases [of e cfg h solver a b] by (auto simp: pprint_step_fields)
    then show "b = s \<or> st_t b \<le> tFinal cfg"
      using advance_time_bound [OF assms(1)] by simp
  qed
  with assms(3) show ?thesis by auto
qed

subsection \<open>Before and after the loop\<close>

text \<open>
  The three ways \<^verbatim>\<open>main\<close> returns before the loop, and what the code after the loop
  can rely on when it does not.
\<close>

lemma select_solver_simps:
  "select_solver 1 = Some ForwardEulerSolver"
  "select_solver 2 = Some (RK2Solver 1)"
  "select_solver 3 = Some RK3SSPSolver"
  "n \<noteq> 1 \<Longrightarrow> n \<noteq> 2 \<Longrightarrow> n \<noteq> 3 \<Longrightarrow> select_solver n = None"
  by (simp_all add: select_solver_def)

lemma options_config_eq: "config (phypsys_options args) = config (hypsys_options args)"
  by (simp add: phypsys_options_def hypsys_options_def)

lemma hypsys_setup_unknown_solver:
  assumes "Good args" and "select_solver (odeSolverType (config (hypsys_options args))) = None"
  shows "hypsys_setup e args =
    Inl ([PrintOptions, UnknownODESolver (odeSolverType (config (hypsys_options args)))], - 1)"
  using assms by (simp add: hypsys_setup_def)

lemma phypsys_setup_unknown_solver:
  assumes "Good args" and "select_solver (odeSolverType (config (phypsys_options args))) = None"
  shows "phypsys_setup e args =
    Inl ((if myid e = 0 then [PrintOptions] else []) @
         [UnknownODESolver (odeSolverType (config (phypsys_options args)))], - 1)"
  using assms by (simp add: phypsys_setup_def)

lemma hypsys_setup_unknown_problem:
  assumes "Good args"
    and "select_solver (odeSolverType (config (hypsys_options args))) = Some solver"
    and "ProblemNum (config (hypsys_options args)) \<noteq> 0"
  shows "\<exists>n. hypsys_setup e args =
    Inl ([PrintOptions, NumberOfUnknowns n,
          UnknownHyperbolicSystem (ProblemNum (config (hypsys_options args)))], - 1)"
  using assms by (simp add: hypsys_setup_def select_problem_def Let_def)

lemma phypsys_setup_unknown_problem:
  assumes "Good args"
    and "select_solver (odeSolverType (config (phypsys_options args))) = Some solver"
    and "ProblemNum (config (phypsys_options args)) \<noteq> 0"
  shows "\<exists>n. phypsys_setup e args =
    Inl ((if myid e = 0 then [PrintOptions, NumberOfUnknowns n] else []) @
         [UnknownHyperbolicSystem (ProblemNum (config (phypsys_options args)))], - 1)"
  using assms by (simp add: phypsys_setup_def select_problem_def Let_def)

lemma hypsys_setup_recognized:
  assumes "Good args"
    and "select_solver (odeSolverType (config (hypsys_options args))) = Some solver"
    and "ProblemNum (config (hypsys_options args)) = 0"
  obtains p where "hypsys_setup e args = Inr p"
    and "run_solver p = solver"
    and "run_hyp p = Advection e (run_config p)"
    and "ProblemNum (run_config p) = 0"
    and "odeSolverType (run_config p) = odeSolverType (config (hypsys_options args))"
    and "tFinal (run_config p) = tFinal (config (hypsys_options args))"
    and "dt (run_config p) = dt (config (hypsys_options args))"
    and "evol_hyp (st_evol (run_state p)) = run_hyp p"
    and "evol_scheme (st_evol (run_state p)) = scheme (hypsys_options args)"
    and "st_u (run_state p) = u0 (run_hyp p)"
    and "st_t (run_state p) = 0" and "st_ti (run_state p) = 0" and "\<not> st_done (run_state p)"
    and "run_InitialMass p = dot (run_LumpedMassMat p) (u0 (run_hyp p))"
    and "odeSolverType (run_config p) \<noteq> 1 \<and> SteadyState (run_hyp p)
           \<Longrightarrow> pseudo_time_warning \<in> set (st_out (run_state p))"
    and "SteadyState (run_hyp p) \<Longrightarrow>
           \<exists>n. uOld (st_evol (run_state p)) = replicate n 0"
    and "evol_LumpedMassMat (st_evol (run_state p)) = run_LumpedMassMat p"
  using assms by (simp add: hypsys_setup_def select_problem_def Let_def)

lemma phypsys_setup_recognized:
  assumes "Good args"
    and "select_solver (odeSolverType (config (phypsys_options args))) = Some solver"
    and "ProblemNum (config (phypsys_options args)) = 0"
  obtains p where "phypsys_setup e args = Inr p"
    and "run_solver p = solver"
    and "run_hyp p = Advection e (run_config p)"
    and "ProblemNum (run_config p) = 0"
    and "odeSolverType (run_config p) = odeSolverType (config (phypsys_options args))"
    and "tFinal (run_config p) = tFinal (config (phypsys_options args))"
    and "dt (run_config p) = dt (config (phypsys_options args))"
    and "evol_hyp (st_evol (run_state p)) = run_hyp p"
    and "evol_scheme (st_evol (run_state p)) = scheme (phypsys_options args)"
    and "st_u (run_state p) = u0 (run_hyp p)"
    and "st_t (run_state p) = 0" and "st_ti (run_state p) = 0" and "\<not> st_done (run_state p)"
    and "run_InitialMass p =
           Allreduce_InitialMass e (dot (run_LumpedMassMat p) (u0 (run_hyp p)))"
    and "odeSolverType (run_config p) \<noteq> 1 \<and> SteadyState (run_hyp p)
           \<Longrightarrow> pseudo_time_warning \<in> set (st_out (run_state p))"
    and "SteadyState (run_hyp p) \<Longrightarrow>
           \<exists>n. uOld (st_evol (run_state p)) = replicate n 0"
    and "evol_LumpedMassMat (st_evol (run_state p)) = run_LumpedMassMat p"
  using assms by (simp add: phypsys_setup_def select_problem_def Let_def)

lemma hypsys_setup_Inr:
  assumes "hypsys_setup e args = Inr p"
  shows "Good args"
    and "\<exists>solver. select_solver (odeSolverType (config (hypsys_options args))) = Some solver"
    and "ProblemNum (config (hypsys_options args)) = 0"
    and "run_InitialMass p = dot (run_LumpedMassMat p) (u0 (run_hyp p))"
    and "evol_scheme (st_evol (run_state p)) = scheme (hypsys_options args)"
    and "\<forall>x. WriteErrors x \<notin> set (st_out (run_state p))"
  using assms
  by (auto simp: hypsys_setup_def select_problem_def pseudo_time_warning_def Let_def
      split: if_splits option.splits)

lemma phypsys_setup_Inr:
  assumes "phypsys_setup e args = Inr p"
  shows "Good args"
    and "\<exists>solver. select_solver (odeSolverType (config (phypsys_options args))) = Some solver"
    and "ProblemNum (config (phypsys_options args)) = 0"
    and "run_InitialMass p =
           Allreduce_InitialMass e (dot (run_LumpedMassMat p) (u0 (run_hyp p)))"
    and "evol_scheme (st_evol (run_state p)) = scheme (phypsys_options args)"
    and "\<forall>x. WriteErrors x \<notin> set (st_out (run_state p))"
  using assms
  by (auto simp: phypsys_setup_def select_problem_def pseudo_time_warning_def Let_def
      split: if_splits option.splits)

lemma hypsys_setup_mass:
  assumes "hypsys_setup e args = Inr p"
  shows "run_LumpedMassMat p =
    LumpedMassMat (Discretize e (MeshFile (hypsys_options args))
      (refinements (hypsys_options args)) (order (config (hypsys_options args))))"
  using assms
  by (auto simp: hypsys_setup_def select_problem_def Let_def split: if_splits option.splits)

lemma phypsys_setup_mass:
  assumes "phypsys_setup e args = Inr p"
  shows "run_LumpedMassMat p =
    LumpedMassMat (PDiscretize e (MeshFile (phypsys_options args))
      (refinements (phypsys_options args)) (prefinements (phypsys_options args))
      (order (config (phypsys_options args))))"
  using assms
  by (auto simp: phypsys_setup_def select_problem_def Let_def split: if_splits option.splits)

lemma hypsys_setup_Inr_state:
  assumes "hypsys_setup e args = Inr p"
  shows "\<not> st_done (run_state p)" and "st_t (run_state p) = 0" and "st_ti (run_state p) = 0"
    and "st_u (run_state p) = u0 (run_hyp p)"
    and "run_config p = (config (hypsys_options args))
           \<lparr>bbMin := bbMin (run_config p), bbMax := bbMax (run_config p)\<rparr>"
    and "odeSolverType (run_config p) \<noteq> 1 \<Longrightarrow> SteadyState (run_hyp p)
           \<Longrightarrow> pseudo_time_warning \<in> set (st_out (run_state p))"
  using assms
  by (auto simp: hypsys_setup_def select_problem_def Let_def split: if_splits option.splits)

lemma phypsys_setup_Inr_state:
  assumes "phypsys_setup e args = Inr p"
  shows "\<not> st_done (run_state p)" and "st_t (run_state p) = 0" and "st_ti (run_state p) = 0"
    and "st_u (run_state p) = u0 (run_hyp p)"
    and "run_config p = (config (phypsys_options args))
           \<lparr>bbMin := bbMin (run_config p), bbMax := bbMax (run_config p)\<rparr>"
    and "odeSolverType (run_config p) \<noteq> 1 \<Longrightarrow> SteadyState (run_hyp p)
           \<Longrightarrow> pseudo_time_warning \<in> set (st_out (run_state p))"
  using assms
  by (auto simp: phypsys_setup_def select_problem_def Let_def split: if_splits option.splits)

lemma hypsys_setup_Inr_evol:
  assumes "hypsys_setup e args = Inr p"
  shows "run_hyp p = Advection e (run_config p)"
    and "tFinal (run_config p) = tFinal (config (hypsys_options args))"
    and "dt (run_config p) = dt (config (hypsys_options args))"
    and "select_solver (odeSolverType (config (hypsys_options args))) = Some (run_solver p)"
    and "st_evol (run_state p) =
      \<lparr>evol_hyp = run_hyp p, evol_scheme = scheme (hypsys_options args),
       evol_LumpedMassMat = run_LumpedMassMat p,
       uOld = (if SteadyState (run_hyp p)
               then replicate (ProblemSize (Discretize e (MeshFile (hypsys_options args))
                      (refinements (hypsys_options args))
                      (order (config (hypsys_options args))))) 0
               else [])\<rparr>"
  using assms
  by (auto simp: hypsys_setup_def select_problem_def Let_def split: if_splits option.splits)

lemma phypsys_setup_Inr_evol:
  assumes "phypsys_setup e args = Inr p"
  shows "run_hyp p = Advection e (run_config p)"
    and "tFinal (run_config p) = tFinal (config (phypsys_options args))"
    and "dt (run_config p) = dt (config (phypsys_options args))"
    and "select_solver (odeSolverType (config (phypsys_options args))) = Some (run_solver p)"
    and "st_evol (run_state p) =
      \<lparr>evol_hyp = run_hyp p, evol_scheme = scheme (phypsys_options args),
       evol_LumpedMassMat = run_LumpedMassMat p,
       uOld = (if SteadyState (run_hyp p)
               then replicate (VSize (PDiscretize e (MeshFile (phypsys_options args))
                      (refinements (phypsys_options args))
                      (prefinements (phypsys_options args))
                      (order (config (phypsys_options args))))) 0
               else [])\<rparr>"
  using assms
  by (auto simp: phypsys_setup_def select_problem_def Let_def split: if_splits option.splits)

lemma hypsys_main_setup:
  "hypsys_setup e args = Inl (out, status) \<Longrightarrow> hypsys_main e args = Some (Returned out status)"
  "hypsys_setup e args = Inr p \<Longrightarrow>
     hypsys_main e args =
       (case time_loop e (run_config p) (run_hyp p) (run_solver p) (run_state p) of
          None \<Rightarrow> None
        | Some (Inl f) \<Rightarrow> Some (Killed f)
        | Some (Inr s) \<Rightarrow> Some (Returned (hypsys_finish p s) 0))"
  by (simp_all add: hypsys_main_def)

lemma phypsys_main_setup:
  "phypsys_setup e args = Inl (out, status) \<Longrightarrow> phypsys_main e args = Some (Returned out status)"
  "phypsys_setup e args = Inr p \<Longrightarrow>
     phypsys_main e args =
       (case ptime_loop e (run_config p) (run_hyp p) (run_solver p) (run_state p) of
          None \<Rightarrow> None
        | Some (Inl f) \<Rightarrow> Some (Killed f)
        | Some (Inr s) \<Rightarrow> Some (Returned (phypsys_finish e p s) 0))"
  by (simp_all add: phypsys_main_def)

subsection \<open>The operator of the specification\<close>


lemma F_ij_antisymmetric:
  assumes "\<forall>p \<in> set (pairs op). (snd p, fst p) \<notin> set (pairs op)"
  shows "F_ij op u j i = - F_ij op u i j"
  using assms by (auto simp: F_ij_def)

lemma alpha_ij_symmetric: "alpha_ij op u j i = alpha_ij op u i j"
  by (simp add: alpha_ij_def min.commute)

lemma pair_contribution_zero:
  assumes "\<forall>p \<in> set (pairs op). (snd p, fst p) \<notin> set (pairs op)"
  shows "pair_contribution op u p = 0"
  by (simp add: pair_contribution_def F_ij_antisymmetric [OF assms, of u "snd p" "fst p"]
      alpha_ij_symmetric [of op u "snd p" "fst p"])

lemma pair_contributions_zero:
  assumes "\<forall>p \<in> set (pairs op). (snd p, fst p) \<notin> set (pairs op)"
  shows "sum_list (map (pair_contribution op u) ps) = 0"
  by (induction ps) (simp_all add: pair_contribution_zero [OF assms])

lemma sum_list_swap:
  "sum_list (map (\<lambda>i. sum_list (map (g i) ps)) ns) =
   sum_list (map (\<lambda>p. sum_list (map (\<lambda>i. g i p) ns)) ps)"
  for g :: "'a \<Rightarrow> 'b \<Rightarrow> real"
proof (induction ps)
  case Nil
  show ?case by simp
next
  case (Cons p ps)
  show ?case
    by (simp add: sum_list_addf Cons.IH)
qed

lemma sum_list_select:
  "sum_list (map (\<lambda>i. if a = i then x i else 0) [0 ..< n]) = (if a < n then x a else (0::real))"
  by (induction n) auto

lemma limited_flux_total:
  assumes "\<forall>p \<in> set (pairs op). (snd p, fst p) \<notin> set (pairs op)"
    and "\<forall>p \<in> set (pairs op). fst p < n \<and> snd p < n"
  shows "sum_list (map (limited_flux_sum op u) [0 ..< n]) = 0"
proof -
  have "sum_list (map (limited_flux_sum op u) [0 ..< n]) =
      sum_list (map (\<lambda>p. sum_list (map (\<lambda>i.
        (if fst p = i then alpha_ij op u i (snd p) * F_ij op u i (snd p) else 0) +
        (if snd p = i then alpha_ij op u i (fst p) * F_ij op u i (fst p) else 0)) [0 ..< n]))
        (pairs op))"
    unfolding limited_flux_sum_def by (rule sum_list_swap)
  also have "\<dots> = sum_list (map (pair_contribution op u) (pairs op))"
  proof (rule arg_cong [where f = sum_list], rule map_cong [OF refl])
    fix p assume p: "p \<in> set (pairs op)"
    with assms(2) have b: "fst p < n" "snd p < n" by auto
    show "sum_list (map (\<lambda>i.
        (if fst p = i then alpha_ij op u i (snd p) * F_ij op u i (snd p) else 0) +
        (if snd p = i then alpha_ij op u i (fst p) * F_ij op u i (fst p) else 0)) [0 ..< n])
      = pair_contribution op u p"
      using b
      by (simp add: sum_list_addf sum_list_select pair_contribution_def)
  qed
  also have "\<dots> = 0"
    by (rule pair_contributions_zero [OF assms(1)])
  finally show ?thesis .
qed

lemma dot_map_upt:
  assumes "length m = n"
  shows "dot m (map f [0 ..< n]) = sum_list (map (\<lambda>i. m ! i * f i) [0 ..< n])"
proof -
  have "map2 (*) m (map f [0 ..< n]) = map (\<lambda>i. m ! i * f i) [0 ..< n]"
    using assms by (intro nth_equalityI) simp_all
  then show ?thesis by (simp add: dot_def)
qed

lemma dot_nth:
  assumes "length m = n" and "length v = n"
  shows "dot m v = sum_list (map (\<lambda>i. m ! i * v ! i) [0 ..< n])"
proof -
  have "map2 (*) m v = map (\<lambda>i. m ! i * v ! i) [0 ..< n]"
    using assms by (intro nth_equalityI) simp_all
  then show ?thesis by (simp add: dot_def)
qed

subsection \<open>The example runs, evaluated\<close>

text \<open>
  The example collaborators and command lines, evaluated once for the instances below.
\<close>

lemma example_setup:
  "hypsys_setup (example_env (example_hyp steady known fo v) check) one_step =
     Inr \<lparr>run_config =
            \<lparr>ProblemNum = 0, ConfigNum = 1, order = 3, tFinal = 1, dt = 1, odeSolverType = 3,
             VisSteps = 100, precision = 8, bbMin = [0], bbMax = [1]\<rparr>,
          run_solver = RK3SSPSolver,
          run_hyp = example_hyp steady known fo v,
          run_LumpedMassMat = [1, 1],
          run_InitialMass = dot [1, 1] v,
          run_state =
            \<lparr>st_u = v, st_t = 0, st_ti = 0, st_done = False, st_dt = 0, st_res = 0,
             st_evol = \<lparr>evol_hyp = example_hyp steady known fo v, evol_scheme = 0,
                        evol_LumpedMassMat = [1, 1],
                        uOld = (if steady then [0, 0] else [])\<rparr>,
             st_out = [PrintOptions, NumberOfUnknowns 2] @
                      (if steady then [pseudo_time_warning] else []) @
                      (if fo then [SaveMesh, SaveInitial v] else []) @
                      [VisualizeField v]\<rparr>\<rparr>"
  by (simp add: hypsys_setup_def hypsys_options_def one_step_def no_options_def AddOption_def
      select_solver_def select_problem_def example_env_def example_hyp_def Standard_def
      Let_def numeral_2_eq_2)

lemma pexample_setup:
  "phypsys_setup (example_penv rank (example_hyp steady known fo v) check) one_step =
     Inr \<lparr>run_config =
            \<lparr>ProblemNum = 0, ConfigNum = 1, order = 3, tFinal = 1, dt = 1, odeSolverType = 3,
             VisSteps = 100, precision = 8, bbMin = [0], bbMax = [1]\<rparr>,
          run_solver = RK3SSPSolver,
          run_hyp = example_hyp steady known fo v,
          run_LumpedMassMat = [1, 1],
          run_InitialMass = dot [1, 1] v + dot [1, 1] v,
          run_state =
            \<lparr>st_u = v, st_t = 0, st_ti = 0, st_done = False, st_dt = 0, st_res = 0,
             st_evol = \<lparr>evol_hyp = example_hyp steady known fo v, evol_scheme = 0,
                        evol_LumpedMassMat = [1, 1],
                        uOld = (if steady then [0, 0] else [])\<rparr>,
             st_out = (if rank = 0 then [PrintOptions, NumberOfUnknowns 4] else []) @
                      (if steady then [pseudo_time_warning] else []) @
                      (if fo then [SaveMesh, SaveInitial v] else []) @
                      [VisualizeField v]\<rparr>\<rparr>"
  by (simp add: phypsys_setup_def phypsys_options_def one_step_def no_options_def AddOption_def
      select_solver_def select_problem_def example_penv_def example_hyp_def Standard_def
      Let_def numeral_2_eq_2)

lemma example_stepped:
  "stepped (example_env h check) cfg solver s =
     \<lparr>step_x = st_u s, step_t = st_t s + step_size cfg s, step_dt = step_size cfg s\<rparr>"
  "stepped (example_penv rank h check) cfg solver s =
     \<lparr>step_x = st_u s, step_t = st_t s + step_size cfg s, step_dt = step_size cfg s\<rparr>"
  by (simp_all add: stepped_def example_env_def example_penv_def)

lemma example_prepared:
  obtains p where
    "hypsys_setup (example_env (example_hyp steady known fo v) check) one_step = Inr p"
    "run_hyp p = example_hyp steady known fo v" "run_LumpedMassMat p = [1, 1]"
    "run_InitialMass p = dot [1, 1] v"
    "tFinal (run_config p) = 1" "dt (run_config p) = 1"
    "st_u (run_state p) = v" "st_t (run_state p) = 0" "st_ti (run_state p) = 0"
    "\<not> st_done (run_state p)"
    "uOld (st_evol (run_state p)) = (if steady then [0, 0] else [])"
    "evol_LumpedMassMat (st_evol (run_state p)) = [1, 1]"
  using example_setup [of steady known fo v check] by simp

lemma pexample_prepared:
  obtains p where
    "phypsys_setup (example_penv rank (example_hyp steady known fo v) check) one_step = Inr p"
    "run_hyp p = example_hyp steady known fo v" "run_LumpedMassMat p = [1, 1]"
    "run_InitialMass p = dot [1, 1] v + dot [1, 1] v"
    "tFinal (run_config p) = 1" "dt (run_config p) = 1"
    "st_u (run_state p) = v" "st_t (run_state p) = 0" "st_ti (run_state p) = 0"
    "\<not> st_done (run_state p)"
    "uOld (st_evol (run_state p)) = (if steady then [0, 0] else [])"
    "evol_LumpedMassMat (st_evol (run_state p)) = [1, 1]"
  using pexample_setup [of rank steady known fo v check] by simp

lemma example_options:
  "Good no_options" "Good one_step"
  "Good (no_options\<lparr>opt_s := Some n\<rparr>)" "Good (no_options\<lparr>opt_p := Some k\<rparr>)"
  "Good (no_options\<lparr>opt_e := Some i\<rparr>)"
  "odeSolverType (config (hypsys_options no_options)) = 3"
  "ProblemNum (config (hypsys_options no_options)) = 0"
  "odeSolverType (config (hypsys_options one_step)) = 3"
  "ProblemNum (config (hypsys_options one_step)) = 0"
  "odeSolverType (config (hypsys_options (no_options\<lparr>opt_s := Some n\<rparr>))) = n"
  "ProblemNum (config (hypsys_options (no_options\<lparr>opt_s := Some n\<rparr>))) = 0"
  "odeSolverType (config (hypsys_options (no_options\<lparr>opt_p := Some k\<rparr>))) = 3"
  "ProblemNum (config (hypsys_options (no_options\<lparr>opt_p := Some k\<rparr>))) = k"
  by (simp_all add: no_options_def one_step_def hypsys_options_def AddOption_def)

lemma example_myid: "myid (example_penv rank h check) = rank"
  by (simp add: example_penv_def)

lemma example_step_size:
  assumes "tFinal cfg = 1" and "dt cfg = 1" and "st_t s = 0"
  shows "step_size cfg s = 1"
  using assms by (simp add: step_size_def)

lemma example_advance_unsteady:
  assumes "tFinal cfg = 1" and "dt cfg = 1" and "st_t s = 0" and "\<not> SteadyState h"
  shows "advance (example_env h' check) cfg h solver s =
           s\<lparr>st_dt := 1, st_t := 1, st_ti := st_ti s + 1, st_done := True\<rparr>"
    and "advance (example_penv rank h' check) cfg h solver s =
           s\<lparr>st_dt := 1, st_t := 1, st_ti := st_ti s + 1, st_done := True\<rparr>"
  using assms by (simp_all add: advance_def Let_def example_stepped example_step_size)

lemma example_hyp_simps:
  "u0 (example_hyp steady known fo v) = v"
  "SteadyState (example_hyp steady known fo v) = steady"
  "SolutionKnown (example_hyp steady known fo v) = known"
  "FileOutput (example_hyp steady known fo v) = fo"
  "ComputeErrors (example_hyp steady known fo v) D u = [dot u u / D]"
  by (simp_all add: example_hyp_def)

lemma example_prepared_out:
  obtains p where
    "hypsys_setup (example_env (example_hyp steady known fo v) check) one_step = Inr p"
    "run_hyp p = example_hyp steady known fo v" "run_LumpedMassMat p = [1, 1]"
    "run_InitialMass p = dot [1, 1] v"
    "tFinal (run_config p) = 1" "dt (run_config p) = 1"
    "st_u (run_state p) = v" "st_t (run_state p) = 0" "st_ti (run_state p) = 0"
    "\<not> st_done (run_state p)"
    "st_out (run_state p) = [PrintOptions, NumberOfUnknowns 2] @
                      (if steady then [pseudo_time_warning] else []) @
                      (if fo then [SaveMesh, SaveInitial v] else []) @
                      [VisualizeField v]"
  using example_setup [of steady known fo v check] by simp

lemma pexample_prepared_out:
  obtains p where
    "phypsys_setup (example_penv rank (example_hyp steady known fo v) check) one_step = Inr p"
    "run_hyp p = example_hyp steady known fo v" "run_LumpedMassMat p = [1, 1]"
    "run_InitialMass p = dot [1, 1] v + dot [1, 1] v"
    "tFinal (run_config p) = 1" "dt (run_config p) = 1"
    "st_u (run_state p) = v" "st_t (run_state p) = 0" "st_ti (run_state p) = 0"
    "\<not> st_done (run_state p)"
    "st_out (run_state p) = (if rank = 0 then [PrintOptions, NumberOfUnknowns 4] else []) @
                      (if steady then [pseudo_time_warning] else []) @
                      (if fo then [SaveMesh, SaveInitial v] else []) @
                      [VisualizeField v]"
  using pexample_setup [of rank steady known fo v check] by simp

lemma example_allreduce:
  "Allreduce_InitialMass (example_penv rank h check) x = x + x"
  "Allreduce_DomainSize (example_penv rank h check) x = x + x"
  "Allreduce_FinalMass (example_penv rank h check) x = x + x"
  by (simp_all add: example_penv_def)

lemma example_main:
  "hypsys_main (example_env (example_hyp False known fo v) check) one_step =
     Some (Returned
       ([PrintOptions, NumberOfUnknowns 2] @
        (if fo then [SaveMesh, SaveInitial v] else []) @
        [VisualizeField v, TimeStep 1 1 None, VisualizeField v,
         MassDifference (\<bar>dot [1, 1] v - dot [1, 1] v\<bar> / 2)] @
        (if known \<and> fo then [WriteErrors [dot v v / 2]] else []) @
        (if fo then [SaveFinal v] else [])) 0)"
proof -
  let ?h = "example_hyp False known fo v"
  let ?e = "example_env ?h check"
  obtain p where p: "hypsys_setup ?e one_step = Inr p"
    "run_hyp p = ?h" "run_LumpedMassMat p = [1, 1]" "run_InitialMass p = dot [1, 1] v"
    "tFinal (run_config p) = 1" "dt (run_config p) = 1"
    "st_u (run_state p) = v" "st_t (run_state p) = 0" "st_ti (run_state p) = 0"
    "\<not> st_done (run_state p)"
    "st_out (run_state p) = [PrintOptions, NumberOfUnknowns 2] @
                      (if False then [pseudo_time_warning] else []) @
                      (if fo then [SaveMesh, SaveInitial v] else []) @
                      [VisualizeField v]"
    by (rule example_prepared_out [of False known fo v check])
  have ns: "\<not> SteadyState (run_hyp p)"
    by (simp add: p(2) example_hyp_simps)
  have adv: "advance ?e (run_config p) (run_hyp p) (run_solver p) (run_state p) =
      (run_state p)\<lparr>st_dt := 1, st_t := 1, st_ti := st_ti (run_state p) + 1, st_done := True\<rparr>"
    by (rule example_advance_unsteady [OF p(5,6,8) ns])
  have "time_loop ?e (run_config p) (run_hyp p) (run_solver p) (run_state p) =
      Some (Inr (print_step (run_hyp p)
        (advance ?e (run_config p) (run_hyp p) (run_solver p) (run_state p))))"
    by (rule time_loop_last [OF p(10)]) (simp add: adv)
  then have "hypsys_main ?e one_step = Some (Returned (hypsys_finish p (print_step (run_hyp p)
        (advance ?e (run_config p) (run_hyp p) (run_solver p) (run_state p)))) 0)"
    by (simp add: hypsys_main_setup(2) [OF p(1)])
  also have "hypsys_finish p (print_step (run_hyp p)
        (advance ?e (run_config p) (run_hyp p) (run_solver p) (run_state p))) =
       ([PrintOptions, NumberOfUnknowns 2] @
        (if fo then [SaveMesh, SaveInitial v] else []) @
        [VisualizeField v, TimeStep 1 1 None, VisualizeField v,
         MassDifference (\<bar>dot [1, 1] v - dot [1, 1] v\<bar> / 2)] @
        (if known \<and> fo then [WriteErrors [dot v v / 2]] else []) @
        (if fo then [SaveFinal v] else []))"
    unfolding adv
    by (simp add: hypsys_finish_def print_step_def p(2-11) example_hyp_simps)
  finally show ?thesis .
qed

lemma pexample_main:
  "phypsys_main (example_penv rank (example_hyp False known fo v) check) one_step =
     Some (Returned
       ((if rank = 0 then [PrintOptions, NumberOfUnknowns 4] else []) @
        (if fo then [SaveMesh, SaveInitial v] else []) @
        [VisualizeField v] @
        (if rank = 0 then [TimeStep 1 1 None] else []) @
        [VisualizeField v] @
        (if rank = 0
         then [MassDifference (\<bar>(dot [1, 1] v + dot [1, 1] v) - (dot [1, 1] v + dot [1, 1] v)\<bar> / 4)]
         else []) @
        (if known \<and> fo \<and> rank = 0 then [WriteErrors [dot v v / 4]] else []) @
        (if fo then [SaveFinal v] else [])) 0)"
proof -
  let ?h = "example_hyp False known fo v"
  let ?e = "example_penv rank ?h check"
  obtain p where p: "phypsys_setup ?e one_step = Inr p"
    "run_hyp p = ?h" "run_LumpedMassMat p = [1, 1]"
    "run_InitialMass p = dot [1, 1] v + dot [1, 1] v"
    "tFinal (run_config p) = 1" "dt (run_config p) = 1"
    "st_u (run_state p) = v" "st_t (run_state p) = 0" "st_ti (run_state p) = 0"
    "\<not> st_done (run_state p)"
    "st_out (run_state p) = (if rank = 0 then [PrintOptions, NumberOfUnknowns 4] else []) @
                      (if False then [pseudo_time_warning] else []) @
                      (if fo then [SaveMesh, SaveInitial v] else []) @
                      [VisualizeField v]"
    by (rule pexample_prepared_out [of rank False known fo v check])
  have ns: "\<not> SteadyState (run_hyp p)"
    by (simp add: p(2) example_hyp_simps)
  have adv: "advance ?e (run_config p) (run_hyp p) (run_solver p) (run_state p) =
      (run_state p)\<lparr>st_dt := 1, st_t := 1, st_ti := st_ti (run_state p) + 1, st_done := True\<rparr>"
    by (rule example_advance_unsteady [OF p(5,6,8) ns])
  have "ptime_loop ?e (run_config p) (run_hyp p) (run_solver p) (run_state p) =
      Some (Inr (pprint_step (myid ?e) (run_hyp p)
        (advance ?e (run_config p) (run_hyp p) (run_solver p) (run_state p))))"
    by (rule ptime_loop_last [OF p(10)]) (simp add: adv)
  then have "phypsys_main ?e one_step = Some (Returned (phypsys_finish ?e p
        (pprint_step (myid ?e) (run_hyp p)
        (advance ?e (run_config p) (run_hyp p) (run_solver p) (run_state p)))) 0)"
    by (simp add: phypsys_main_setup(2) [OF p(1)])
  also have "phypsys_finish ?e p (pprint_step (myid ?e) (run_hyp p)
        (advance ?e (run_config p) (run_hyp p) (run_solver p) (run_state p))) =
       ((if rank = 0 then [PrintOptions, NumberOfUnknowns 4] else []) @
        (if fo then [SaveMesh, SaveInitial v] else []) @
        [VisualizeField v] @
        (if rank = 0 then [TimeStep 1 1 None] else []) @
        [VisualizeField v] @
        (if rank = 0
         then [MassDifference (\<bar>(dot [1, 1] v + dot [1, 1] v) - (dot [1, 1] v + dot [1, 1] v)\<bar> / 4)]
         else []) @
        (if known \<and> fo \<and> rank = 0 then [WriteErrors [dot v v / 4]] else []) @
        (if fo then [SaveFinal v] else []))"
    unfolding adv
    by (simp add: phypsys_finish_def pprint_step_def p(2-11) example_hyp_simps
        example_allreduce example_myid)
  finally show ?thesis .
qed

lemma example_completed:
  obtains p s where
    "hypsys_setup (example_env (example_hyp False known fo v) check) one_step = Inr p"
    "time_loop (example_env (example_hyp False known fo v) check)
       (run_config p) (run_hyp p) (run_solver p) (run_state p) = Some (Inr s)"
    "run_hyp p = example_hyp False known fo v" "run_LumpedMassMat p = [1, 1]"
    "st_u s = v" "st_t s = 1" "st_ti s = 1"
proof -
  let ?h = "example_hyp False known fo v"
  let ?e = "example_env ?h check"
  obtain p where p: "hypsys_setup ?e one_step = Inr p"
    "run_hyp p = ?h" "run_LumpedMassMat p = [1, 1]" "run_InitialMass p = dot [1, 1] v"
    "tFinal (run_config p) = 1" "dt (run_config p) = 1"
    "st_u (run_state p) = v" "st_t (run_state p) = 0" "st_ti (run_state p) = 0"
    "\<not> st_done (run_state p)"
    by (rule example_prepared [of False known fo v check])
  have ns: "\<not> SteadyState (run_hyp p)"
    by (simp add: p(2) example_hyp_simps)
  have adv: "advance ?e (run_config p) (run_hyp p) (run_solver p) (run_state p) =
      (run_state p)\<lparr>st_dt := 1, st_t := 1, st_ti := st_ti (run_state p) + 1, st_done := True\<rparr>"
    by (rule example_advance_unsteady [OF p(5,6,8) ns])
  let ?s = "print_step (run_hyp p)
        (advance ?e (run_config p) (run_hyp p) (run_solver p) (run_state p))"
  have l: "time_loop ?e (run_config p) (run_hyp p) (run_solver p) (run_state p) = Some (Inr ?s)"
    by (rule time_loop_last [OF p(10)]) (simp add: adv)
  have f: "st_u ?s = v" "st_t ?s = 1" "st_ti ?s = 1"
    by (simp_all add: print_step_fields adv p(7,9))
  show ?thesis
    by (rule that [OF p(1) l p(2,3) f])
qed

lemma pexample_completed:
  obtains p s where
    "phypsys_setup (example_penv rank (example_hyp False known fo v) check) one_step = Inr p"
    "ptime_loop (example_penv rank (example_hyp False known fo v) check)
       (run_config p) (run_hyp p) (run_solver p) (run_state p) = Some (Inr s)"
    "run_hyp p = example_hyp False known fo v" "run_LumpedMassMat p = [1, 1]"
    "st_u s = v" "st_t s = 1" "st_ti s = 1"
proof -
  let ?h = "example_hyp False known fo v"
  let ?e = "example_penv rank ?h check"
  obtain p where p: "phypsys_setup ?e one_step = Inr p"
    "run_hyp p = ?h" "run_LumpedMassMat p = [1, 1]"
    "run_InitialMass p = dot [1, 1] v + dot [1, 1] v"
    "tFinal (run_config p) = 1" "dt (run_config p) = 1"
    "st_u (run_state p) = v" "st_t (run_state p) = 0" "st_ti (run_state p) = 0"
    "\<not> st_done (run_state p)"
    by (rule pexample_prepared [of rank False known fo v check])
  have ns: "\<not> SteadyState (run_hyp p)"
    by (simp add: p(2) example_hyp_simps)
  have adv: "advance ?e (run_config p) (run_hyp p) (run_solver p) (run_state p) =
      (run_state p)\<lparr>st_dt := 1, st_t := 1, st_ti := st_ti (run_state p) + 1, st_done := True\<rparr>"
    by (rule example_advance_unsteady [OF p(5,6,8) ns])
  let ?s = "pprint_step (myid ?e) (run_hyp p)
        (advance ?e (run_config p) (run_hyp p) (run_solver p) (run_state p))"
  have l: "ptime_loop ?e (run_config p) (run_hyp p) (run_solver p) (run_state p) = Some (Inr ?s)"
    by (rule ptime_loop_last [OF p(10)]) (simp add: adv)
  have f: "st_u ?s = v" "st_t ?s = 1" "st_ti ?s = 1"
    by (simp_all add: pprint_step_fields adv p(7,9))
  show ?thesis
    by (rule that [OF p(1) l p(2,3) f])
qed

lemma example_discretize:
  "LumpedMassMat (Discretize (example_env h check) mesh r ord) = [1, 1]"
  "LumpedMassMat (PDiscretize (example_penv rank h check) mesh r pr ord) = [1, 1]"
  by (simp_all add: example_env_def example_penv_def)

lemma example_completed_any:
  obtains p s where
    "hypsys_setup (example_env (example_hyp steady known fo v) check) one_step = Inr p"
    "time_loop (example_env (example_hyp steady known fo v) check)
       (run_config p) (run_hyp p) (run_solver p) (run_state p) = Some (Inr s)"
    "run_hyp p = example_hyp steady known fo v" "st_t s = 1" "st_ti s = 1"
proof -
  let ?h = "example_hyp steady known fo v"
  let ?e = "example_env ?h check"
  obtain p where p: "hypsys_setup ?e one_step = Inr p"
    "run_hyp p = ?h" "run_LumpedMassMat p = [1, 1]" "run_InitialMass p = dot [1, 1] v"
    "tFinal (run_config p) = 1" "dt (run_config p) = 1"
    "st_u (run_state p) = v" "st_t (run_state p) = 0" "st_ti (run_state p) = 0"
    "\<not> st_done (run_state p)"
    by (rule example_prepared [of steady known fo v check])
  let ?a = "advance ?e (run_config p) (run_hyp p) (run_solver p) (run_state p)"
  have st: "step_t (stepped ?e (run_config p) (run_solver p) (run_state p)) = 1"
    by (simp add: example_stepped example_step_size [OF p(5,6,8)] p(8))
  then have d: "st_done ?a" and t: "st_t ?a = 1"
    by (simp_all add: advance_done_at_end advance_fields p(5,6))
  have l: "time_loop ?e (run_config p) (run_hyp p) (run_solver p) (run_state p) =
      Some (Inr (print_step (run_hyp p) ?a))"
    by (rule time_loop_last [OF p(10) d])
  have f: "st_t (print_step (run_hyp p) ?a) = 1" "st_ti (print_step (run_hyp p) ?a) = 1"
    by (simp_all add: print_step_fields advance_fields st p(9))
  show ?thesis
    by (rule that [OF p(1) l p(2) f])
qed

lemma pexample_completed_any:
  obtains p s where
    "phypsys_setup (example_penv rank (example_hyp steady known fo v) check) one_step = Inr p"
    "ptime_loop (example_penv rank (example_hyp steady known fo v) check)
       (run_config p) (run_hyp p) (run_solver p) (run_state p) = Some (Inr s)"
    "run_hyp p = example_hyp steady known fo v" "st_t s = 1" "st_ti s = 1"
proof -
  let ?h = "example_hyp steady known fo v"
  let ?e = "example_penv rank ?h check"
  obtain p where p: "phypsys_setup ?e one_step = Inr p"
    "run_hyp p = ?h" "run_LumpedMassMat p = [1, 1]"
    "run_InitialMass p = dot [1, 1] v + dot [1, 1] v"
    "tFinal (run_config p) = 1" "dt (run_config p) = 1"
    "st_u (run_state p) = v" "st_t (run_state p) = 0" "st_ti (run_state p) = 0"
    "\<not> st_done (run_state p)"
    by (rule pexample_prepared [of rank steady known fo v check])
  let ?a = "advance ?e (run_config p) (run_hyp p) (run_solver p) (run_state p)"
  have st: "step_t (stepped ?e (run_config p) (run_solver p) (run_state p)) = 1"
    by (simp add: example_stepped example_step_size [OF p(5,6,8)] p(8))
  then have d: "st_done ?a" and t: "st_t ?a = 1"
    by (simp_all add: advance_done_at_end advance_fields p(5,6))
  have l: "ptime_loop ?e (run_config p) (run_hyp p) (run_solver p) (run_state p) =
      Some (Inr (pprint_step (myid ?e) (run_hyp p) ?a))"
    by (rule ptime_loop_last [OF p(10) d])
  have f: "st_t (pprint_step (myid ?e) (run_hyp p) ?a) = 1"
    "st_ti (pprint_step (myid ?e) (run_hyp p) ?a) = 1"
    by (simp_all add: pprint_step_fields advance_fields st p(9))
  show ?thesis
    by (rule that [OF p(1) l p(2) f])
qed

lemma example_Step:
  "Step (example_env h check) solver ev u t d = \<lparr>step_x = u, step_t = t + d, step_dt = d\<rparr>"
  "Step (example_penv rank h check) solver ev u t d =
     \<lparr>step_x = u, step_t = t + d, step_dt = d\<rparr>"
  by (simp_all add: example_env_def example_penv_def)

lemma short_steps_config:
  "tFinal (config (hypsys_options short_steps)) = 1"
  "dt (config (hypsys_options short_steps)) = 3 / 10"
  by (simp_all add: short_steps_def no_options_def hypsys_options_def AddOption_def)

lemma example_state_fields:
  "st_t (example_state h t) = t" "\<not> st_done (example_state h t)"
  "st_u (example_state h t) = u0 h" "st_ti (example_state h t) = 0"
  "uOld (st_evol (example_state h t)) = [0, 0]"
  "evol_LumpedMassMat (st_evol (example_state h t)) = [1, 1]"
  by (simp_all add: example_state_def)


lemma example_Advection:
  "Advection (example_env h check) cfg = h"
  "Advection (example_penv rank h check) cfg = h"
  by (simp_all add: example_env_def example_penv_def)

lemma example_ConvergenceCheck:
  "ConvergenceCheck (example_env h check) = check"
  "ConvergenceCheck (example_penv rank h check) = check"
  by (simp_all add: example_env_def example_penv_def)

lemma short_steps_options:
  "Good short_steps"
  "odeSolverType (config (hypsys_options short_steps)) = 1"
  "ProblemNum (config (hypsys_options short_steps)) = 0"
  by (simp_all add: short_steps_def no_options_def hypsys_options_def AddOption_def)

lemma example_MCL_fields:
  "mass example_MCL = [1, 2, 1]" "pairs example_MCL = [(0, 1), (1, 2)]"
  "lowOrderUpdate example_MCL u = [0, 0, 0]"
  "antidiffusiveFlux example_MCL u p = u ! snd p - u ! fst p"
  "endpointAlpha example_MCL u i f = (if i = 1 then 1 / 2 else 1)"
  by (simp_all add: example_MCL_def)

lemma example_F:
  "F_ij example_MCL [1, 3, 2] 0 (Suc 0) = 2" "F_ij example_MCL [1, 3, 2] (Suc 0) 0 = - 2"
  "F_ij example_MCL [1, 3, 2] (Suc 0) (Suc (Suc 0)) = - 1"
  "F_ij example_MCL [1, 3, 2] (Suc (Suc 0)) (Suc 0) = 1"
  by (simp_all add: F_ij_def example_MCL_fields)

lemma example_alpha:
  "alpha_ij example_MCL u 0 (Suc 0) = 1 / 2" "alpha_ij example_MCL u (Suc 0) 0 = 1 / 2"
  "alpha_ij example_MCL u (Suc 0) (Suc (Suc 0)) = 1 / 2"
  "alpha_ij example_MCL u (Suc (Suc 0)) (Suc 0) = 1 / 2"
  by (simp_all add: alpha_ij_def example_MCL_fields)

lemma example_limited:
  "limited_flux_sum example_MCL [1, 3, 2] 0 = 1"
  "limited_flux_sum example_MCL [1, 3, 2] (Suc 0) = - 3 / 2"
  "limited_flux_sum example_MCL [1, 3, 2] (Suc (Suc 0)) = 1 / 2"
  by (simp_all add: limited_flux_sum_def example_MCL_fields example_F example_alpha
      numeral_2_eq_2)

lemma example_MCL_derivative:
  "computeDerivative_MCL example_MCL [1, 3, 2] = [1, - 3 / 4, 1 / 2]"
  by (simp add: computeDerivative_MCL_def example_MCL_fields example_limited)





lemma final_time_options:
  "Good (no_options\<lparr>opt_tf := Some x\<rparr>)"
  "odeSolverType (config (hypsys_options (no_options\<lparr>opt_tf := Some x\<rparr>))) = 3"
  "ProblemNum (config (hypsys_options (no_options\<lparr>opt_tf := Some x\<rparr>))) = 0"
  "tFinal (config (hypsys_options (no_options\<lparr>opt_tf := Some x\<rparr>))) = x"
  "dt (config (hypsys_options (no_options\<lparr>opt_tf := Some x\<rparr>))) = 1 / 1000"
  by (simp_all add: no_options_def hypsys_options_def AddOption_def)

lemma negative_final_time_prepared:
  obtains p where
    "hypsys_setup (example_env h check) (no_options\<lparr>opt_tf := Some (- 1)\<rparr>) = Inr p"
    "\<not> st_done (run_state p)" "st_t (run_state p) = 0" "tFinal (run_config p) = - 1"
    "step_size (run_config p) (run_state p) = - 1"
    "time_loop (example_env h check) (run_config p) (run_hyp p) (run_solver p) (run_state p) =
       Some (Inr (print_step (run_hyp p)
         (advance (example_env h check) (run_config p) (run_hyp p) (run_solver p) (run_state p))))"
    "st_t (advance (example_env h check) (run_config p) (run_hyp p) (run_solver p)
       (run_state p)) = - 1"
proof -
  let ?e = "example_env h check"
  let ?args = "no_options\<lparr>opt_tf := Some (- 1)\<rparr>"
  obtain p where p: "hypsys_setup ?e ?args = Inr p"
    by (rule hypsys_setup_recognized [OF final_time_options(1) _ final_time_options(3), of _ _ ?e])
       (simp add: final_time_options select_solver_simps)
  have c: "tFinal (run_config p) = - 1" "dt (run_config p) = 1 / 1000"
    by (simp_all add: hypsys_setup_Inr_evol(2,3) [OF p] final_time_options)
  have s: "\<not> st_done (run_state p)" "st_t (run_state p) = 0"
    by (simp_all add: hypsys_setup_Inr_state(1,2) [OF p])
  have sz: "step_size (run_config p) (run_state p) = - 1"
    by (simp add: step_size_def c s)
  have t: "st_t (advance ?e (run_config p) (run_hyp p) (run_solver p) (run_state p)) = - 1"
    by (simp add: advance_fields example_stepped s sz)
  have d: "st_done (advance ?e (run_config p) (run_hyp p) (run_solver p) (run_state p))"
    by (rule advance_done_at_end) (simp add: example_stepped s sz c)
  show ?thesis
    by (rule that [OF p s c(1) sz time_loop_last [OF s(1) d] t])
qed

lemma pnegative_final_time_prepared:
  obtains p where
    "phypsys_setup (example_penv rank h check) (no_options\<lparr>opt_tf := Some (- 1)\<rparr>) = Inr p"
    "\<not> st_done (run_state p)" "st_t (run_state p) = 0" "tFinal (run_config p) = - 1"
    "step_size (run_config p) (run_state p) = - 1"
    "ptime_loop (example_penv rank h check) (run_config p) (run_hyp p) (run_solver p)
       (run_state p) =
       Some (Inr (pprint_step rank (run_hyp p)
         (advance (example_penv rank h check) (run_config p) (run_hyp p) (run_solver p)
            (run_state p))))"
    "st_t (advance (example_penv rank h check) (run_config p) (run_hyp p) (run_solver p)
       (run_state p)) = - 1"
proof -
  let ?e = "example_penv rank h check"
  let ?args = "no_options\<lparr>opt_tf := Some (- 1)\<rparr>"
  obtain p where p: "phypsys_setup ?e ?args = Inr p"
    by (rule phypsys_setup_recognized [OF final_time_options(1), where e = ?e])
       (simp_all add: options_config_eq final_time_options select_solver_simps)
  have c: "tFinal (run_config p) = - 1" "dt (run_config p) = 1 / 1000"
    by (simp_all add: phypsys_setup_Inr_evol(2,3) [OF p] options_config_eq final_time_options)
  have s: "\<not> st_done (run_state p)" "st_t (run_state p) = 0"
    by (simp_all add: phypsys_setup_Inr_state(1,2) [OF p])
  have sz: "step_size (run_config p) (run_state p) = - 1"
    by (simp add: step_size_def c s)
  have t: "st_t (advance ?e (run_config p) (run_hyp p) (run_solver p) (run_state p)) = - 1"
    by (simp add: advance_fields example_stepped s sz)
  have d: "st_done (advance ?e (run_config p) (run_hyp p) (run_solver p) (run_state p))"
    by (rule advance_done_at_end) (simp add: example_stepped s sz c)
  have l: "ptime_loop ?e (run_config p) (run_hyp p) (run_solver p) (run_state p) =
       Some (Inr (pprint_step rank (run_hyp p)
         (advance ?e (run_config p) (run_hyp p) (run_solver p) (run_state p))))"
    using ptime_loop_last [OF s(1) d] by (simp add: example_myid)
  show ?thesis
    by (rule that [OF p s c(1) sz l t])
qed


section \<open>The claims of the specification\<close>

subsection \<open>Convergence ends the loop\<close>

text \<open>
  Claim C1. In steady-state mode, when the \<^verbatim>\<open>ConvergenceCheck\<close> of an iteration returns a
  residual below the tolerance \<open>1e-12\<close>, the loop ends with that iteration (the step
  counter is one more than before it), and the final \<^verbatim>\<open>u\<close> is the snapshot \<^verbatim>\<open>uOld\<close>
  the operator holds after the check. The first conjunct is the serial driver, the
  second the parallel one.
\<close>

theorem convergence_ends_loop_with_uOld:
  fixes e :: "'a env_scheme" and pe :: "'b penv_scheme"
  assumes "SteadyState h" and "\<not> st_done s"
  shows
    "(fst (checked e cfg solver s) < tol \<longrightarrow>
        (\<exists>s'. time_loop e cfg h solver s = Some (Inr s') \<and> st_ti s' = st_ti s + 1 \<and>
              st_evol s' = snd (checked e cfg solver s) \<and> st_u s' = uOld (st_evol s'))) \<and>
     (fst (checked pe cfg solver s) < tol \<longrightarrow>
        (\<exists>s'. ptime_loop pe cfg h solver s = Some (Inr s') \<and> st_ti s' = st_ti s + 1 \<and>
              st_evol s' = snd (checked pe cfg solver s) \<and> st_u s' = uOld (st_evol s')))"
proof (intro conjI impI)
  assume c: "fst (checked e cfg solver s) < tol"
  have "time_loop e cfg h solver s = Some (Inr (print_step h (advance e cfg h solver s)))"
    using assms c by (intro time_loop_last advance_steady(3))
  then show "\<exists>s'. time_loop e cfg h solver s = Some (Inr s') \<and> st_ti s' = st_ti s + 1 \<and>
      st_evol s' = snd (checked e cfg solver s) \<and> st_u s' = uOld (st_evol s')"
    using assms(1) c by (simp add: print_step_fields advance_fields advance_steady)
next
  assume c: "fst (checked pe cfg solver s) < tol"
  have "ptime_loop pe cfg h solver s
      = Some (Inr (pprint_step (myid pe) h (advance pe cfg h solver s)))"
    using assms c by (intro ptime_loop_last advance_steady(3))
  then show "\<exists>s'. ptime_loop pe cfg h solver s = Some (Inr s') \<and> st_ti s' = st_ti s + 1 \<and>
      st_evol s' = snd (checked pe cfg solver s) \<and> st_u s' = uOld (st_evol s')"
    using assms(1) c by (simp add: pprint_step_fields advance_fields advance_steady)
qed

text \<open>
  A steady-state run whose check reports the residual 0: it ends after one step with
  \<^verbatim>\<open>u\<close> equal to \<^verbatim>\<open>uOld\<close>.
\<close>

theorem convergence_ends_loop_with_uOld_witness:
  "(\<exists>p s'. hypsys_setup (example_env (example_hyp True False False [2, 3]) example_check)
              one_step = Inr p \<and>
         time_loop (example_env (example_hyp True False False [2, 3]) example_check)
           (run_config p) (run_hyp p) (run_solver p) (run_state p) = Some (Inr s') \<and>
         st_ti s' = 1 \<and> st_u s' = uOld (st_evol s') \<and> uOld (st_evol s') = [2, 3]) \<and>
   (\<exists>p s'. phypsys_setup (example_penv 0 (example_hyp True False False [2, 3]) example_check)
              one_step = Inr p \<and>
         ptime_loop (example_penv 0 (example_hyp True False False [2, 3]) example_check)
           (run_config p) (run_hyp p) (run_solver p) (run_state p) = Some (Inr s') \<and>
         st_ti s' = 1 \<and> st_u s' = uOld (st_evol s') \<and> uOld (st_evol s') = [2, 3])"
proof
  let ?h = "example_hyp True False False [2, 3]"
  let ?e = "example_env ?h example_check"
  let ?pe = "example_penv 0 ?h example_check"
  obtain p where p: "hypsys_setup ?e one_step = Inr p" "run_hyp p = ?h"
      "st_u (run_state p) = [2, 3]" "st_ti (run_state p) = 0" "\<not> st_done (run_state p)"
    by (rule example_prepared [of True False False "[2, 3]" example_check])
  have st: "SteadyState (run_hyp p)"
    by (simp add: p example_hyp_def)
  have c: "fst (checked ?e (run_config p) (run_solver p) (run_state p)) < tol"
    by (simp add: checked_def example_env_def example_check_def tol_def)
  have u: "uOld (snd (checked ?e (run_config p) (run_solver p) (run_state p))) = [2, 3]"
    using p by (simp add: checked_def example_stepped) (simp add: example_env_def example_check_def)
  from convergence_ends_loop_with_uOld [OF st p(5), of ?e "run_config p" "run_solver p" ?pe] c u p
  show "\<exists>p s'. hypsys_setup ?e one_step = Inr p \<and>
         time_loop ?e (run_config p) (run_hyp p) (run_solver p) (run_state p) = Some (Inr s') \<and>
         st_ti s' = 1 \<and> st_u s' = uOld (st_evol s') \<and> uOld (st_evol s') = [2, 3]"
    by auto
next
  let ?h = "example_hyp True False False [2, 3]"
  let ?e = "example_env ?h example_check"
  let ?pe = "example_penv 0 ?h example_check"
  obtain p where p: "phypsys_setup ?pe one_step = Inr p" "run_hyp p = ?h"
      "st_u (run_state p) = [2, 3]" "st_ti (run_state p) = 0" "\<not> st_done (run_state p)"
    by (rule pexample_prepared [of 0 True False False "[2, 3]" example_check])
  have st: "SteadyState (run_hyp p)"
    by (simp add: p example_hyp_def)
  have c: "fst (checked ?pe (run_config p) (run_solver p) (run_state p)) < tol"
    by (simp add: checked_def example_penv_def example_check_def tol_def)
  have u: "uOld (snd (checked ?pe (run_config p) (run_solver p) (run_state p))) = [2, 3]"
    using p by (simp add: checked_def example_stepped) (simp add: example_penv_def example_check_def)
  from convergence_ends_loop_with_uOld [OF st p(5), of ?e "run_config p" "run_solver p" ?pe] c u p
  show "\<exists>p s'. phypsys_setup ?pe one_step = Inr p \<and>
         ptime_loop ?pe (run_config p) (run_hyp p) (run_solver p) (run_state p) = Some (Inr s') \<and>
         st_ti s' = 1 \<and> st_u s' = uOld (st_evol s') \<and> uOld (st_evol s') = [2, 3]"
    by auto
qed


subsection \<open>Unrecognized identifiers\<close>

text \<open>
  Claim C2. On a command line the parser accepts, with integrator identifier \<open>n\<close> and
  problem identifier \<open>k\<close>: if \<open>n\<close> is not 1, 2 or 3, the driver prints the identifier
  and returns \<open>-1\<close>; if \<open>n\<close> is recognized and \<open>k\<close> is not 0, it prints \<open>k\<close> and
  returns \<open>-1\<close>; in both cases the output holds no time step, since the loop is not
  reached. If both are recognized, the solver of that number (Forward Euler, RK2 with
  parameter 1, SSP RK3) and the advection problem are constructed and handed to the
  evolution operator. Each statement is given for the serial and for the parallel
  driver, where rank 0 alone prints the options and the number of unknowns.
\<close>

theorem unrecognized_identifiers_are_fatal:
  fixes e :: "'a senv_scheme" and pe :: "'b penv_scheme"
  assumes "Good args"
    and "n = odeSolverType (config (hypsys_options args))"
    and "k = ProblemNum (config (hypsys_options args))"
  shows
    "odeSolverType (config (phypsys_options args)) = n \<and>
     ProblemNum (config (phypsys_options args)) = k \<and>
     (n \<noteq> 1 \<and> n \<noteq> 2 \<and> n \<noteq> 3 \<longrightarrow>
        hypsys_main e args = Some (Returned [PrintOptions, UnknownODESolver n] (- 1)) \<and>
        phypsys_main pe args =
          Some (Returned ((if myid pe = 0 then [PrintOptions] else []) @ [UnknownODESolver n])
                  (- 1))) \<and>
     ((n = 1 \<or> n = 2 \<or> n = 3) \<and> k \<noteq> 0 \<longrightarrow>
        (\<exists>size. hypsys_main e args =
           Some (Returned [PrintOptions, NumberOfUnknowns size, UnknownHyperbolicSystem k]
                   (- 1))) \<and>
        (\<exists>size. phypsys_main pe args =
           Some (Returned ((if myid pe = 0 then [PrintOptions, NumberOfUnknowns size] else []) @
                           [UnknownHyperbolicSystem k]) (- 1)))) \<and>
     ((n = 1 \<or> n = 2 \<or> n = 3) \<and> k = 0 \<longrightarrow>
        (\<exists>p. hypsys_setup e args = Inr p \<and>
             run_solver p = (if n = 1 then ForwardEulerSolver
                             else if n = 2 then RK2Solver 1 else RK3SSPSolver) \<and>
             run_hyp p = Advection e (run_config p) \<and> ProblemNum (run_config p) = 0 \<and>
             evol_hyp (st_evol (run_state p)) = run_hyp p) \<and>
        (\<exists>p. phypsys_setup pe args = Inr p \<and>
             run_solver p = (if n = 1 then ForwardEulerSolver
                             else if n = 2 then RK2Solver 1 else RK3SSPSolver) \<and>
             run_hyp p = Advection pe (run_config p) \<and> ProblemNum (run_config p) = 0 \<and>
             evol_hyp (st_evol (run_state p)) = run_hyp p))"
proof (intro conjI impI)
  show n: "odeSolverType (config (phypsys_options args)) = n"
    and k: "ProblemNum (config (phypsys_options args)) = k"
    using assms by (simp_all add: options_config_eq)
  {
    assume "n \<noteq> 1 \<and> n \<noteq> 2 \<and> n \<noteq> 3"
    then have none: "select_solver n = None"
      by (simp add: select_solver_simps)
    show "hypsys_main e args = Some (Returned [PrintOptions, UnknownODESolver n] (- 1))"
      using hypsys_setup_unknown_solver [of args e] none assms
      by (simp add: hypsys_main_setup)
    show "phypsys_main pe args =
          Some (Returned ((if myid pe = 0 then [PrintOptions] else []) @ [UnknownODESolver n])
                  (- 1))"
      using phypsys_setup_unknown_solver [of args pe] none assms(1) n
      by (simp add: phypsys_main_setup)
  }
  {
    assume a: "(n = 1 \<or> n = 2 \<or> n = 3) \<and> k \<noteq> 0"
    then obtain solver where some: "select_solver n = Some solver"
      by (auto simp: select_solver_def)
    show "\<exists>size. hypsys_main e args =
           Some (Returned [PrintOptions, NumberOfUnknowns size, UnknownHyperbolicSystem k]
                   (- 1))"
      using hypsys_setup_unknown_problem [of args solver e] some assms a
      by (auto simp: hypsys_main_setup)
    show "\<exists>size. phypsys_main pe args =
           Some (Returned ((if myid pe = 0 then [PrintOptions, NumberOfUnknowns size] else []) @
                           [UnknownHyperbolicSystem k]) (- 1))"
      using phypsys_setup_unknown_problem [of args solver pe] some assms(1) n k a
      by (auto simp: phypsys_main_setup)
  }
  {
    assume a: "(n = 1 \<or> n = 2 \<or> n = 3) \<and> k = 0"
    let ?solver = "if n = 1 then ForwardEulerSolver
                   else if n = 2 then RK2Solver 1 else RK3SSPSolver"
    from a have some: "select_solver n = Some ?solver"
      by (auto simp: select_solver_def)
    show "\<exists>p. hypsys_setup e args = Inr p \<and> run_solver p = ?solver \<and>
             run_hyp p = Advection e (run_config p) \<and> ProblemNum (run_config p) = 0 \<and>
             evol_hyp (st_evol (run_state p)) = run_hyp p"
      using hypsys_setup_recognized [of args ?solver e] some assms a by metis
    show "\<exists>p. phypsys_setup pe args = Inr p \<and> run_solver p = ?solver \<and>
             run_hyp p = Advection pe (run_config p) \<and> ProblemNum (run_config p) = 0 \<and>
             evol_hyp (st_evol (run_state p)) = run_hyp p"
      using phypsys_setup_recognized [of args ?solver pe] some assms(1) n k a by metis
  }
qed

text \<open>
  The integrator 7, the problem 5, and the defaults.
\<close>

theorem unrecognized_identifiers_are_fatal_witness:
  "hypsys_main (example_env (example_hyp False False False [2, 3]) example_check)
     (no_options\<lparr>opt_s := Some 7\<rparr>) = Some (Returned [PrintOptions, UnknownODESolver 7] (- 1)) \<and>
   phypsys_main (example_penv 1 (example_hyp False False False [2, 3]) example_check)
     (no_options\<lparr>opt_s := Some 7\<rparr>) = Some (Returned [UnknownODESolver 7] (- 1)) \<and>
   (\<exists>size. hypsys_main (example_env (example_hyp False False False [2, 3]) example_check)
     (no_options\<lparr>opt_p := Some 5\<rparr>) =
      Some (Returned [PrintOptions, NumberOfUnknowns size, UnknownHyperbolicSystem 5] (- 1))) \<and>
   (\<exists>size. phypsys_main (example_penv 0 (example_hyp False False False [2, 3]) example_check)
     (no_options\<lparr>opt_p := Some 5\<rparr>) =
      Some (Returned [PrintOptions, NumberOfUnknowns size, UnknownHyperbolicSystem 5] (- 1))) \<and>
   (\<exists>p. hypsys_setup (example_env (example_hyp False False False [2, 3]) example_check)
          no_options = Inr p \<and> run_solver p = RK3SSPSolver \<and>
        run_hyp p = example_hyp False False False [2, 3])"
proof -
  let ?e = "example_env (example_hyp False False False [2, 3]) example_check"
  let ?pe = "\<lambda>r. example_penv r (example_hyp False False False [2, 3]) example_check"
  have adv: "Advection ?e c = example_hyp False False False [2, 3]" for c
    by (simp add: example_env_def)
  show ?thesis
    using unrecognized_identifiers_are_fatal
            [of "no_options\<lparr>opt_s := Some 7\<rparr>" 7 0 ?e "?pe 1"]
          unrecognized_identifiers_are_fatal
            [of "no_options\<lparr>opt_p := Some 5\<rparr>" 3 5 ?e "?pe 0"]
          unrecognized_identifiers_are_fatal [of no_options 3 0 ?e "?pe 0"]
    by (simp add: example_options example_myid adv) blast
qed


subsection \<open>The limiter conserves mass\<close>

text \<open>
  Claim C3. When every unordered neighbour pair is listed once, the flux is
  antisymmetric and the limiter coefficient symmetric in the two dofs of a pair, so
  the limited contributions \<open>\<alpha>\<^sub>i\<^sub>j F\<^sub>i\<^sub>j + \<alpha>\<^sub>j\<^sub>i F\<^sub>j\<^sub>i\<close> summed over all pairs are zero;
  and, the pairs being pairs of dofs and the lumped masses positive, the mass-weighted
  sum of the MCL derivative is that of the low-order update: the limiter does not
  change the total mass. This holds for every flux and every endpoint limiter.
\<close>

theorem limiter_conserves_mass:
  assumes "\<forall>p \<in> set (pairs op). (snd p, fst p) \<notin> set (pairs op)"
    and "\<forall>p \<in> set (pairs op). fst p < length u \<and> snd p < length u"
    and "length (mass op) = length u" and "\<forall>m \<in> set (mass op). 0 < m"
    and "length (lowOrderUpdate op u) = length u"
  shows
    "(\<forall>i j. F_ij op u j i = - F_ij op u i j) \<and>
     (\<forall>i j. alpha_ij op u j i = alpha_ij op u i j) \<and>
     (\<forall>p. pair_contribution op u p =
            alpha_ij op u (fst p) (snd p) * F_ij op u (fst p) (snd p) +
            alpha_ij op u (snd p) (fst p) * F_ij op u (snd p) (fst p)) \<and>
     sum_list (map (pair_contribution op u) (pairs op)) = 0 \<and>
     dot (mass op) (computeDerivative_MCL op u) = dot (mass op) (lowOrderUpdate op u)"
proof (intro conjI allI)
  show "F_ij op u j i = - F_ij op u i j" for i j
    by (rule F_ij_antisymmetric [OF assms(1)])
  show "alpha_ij op u j i = alpha_ij op u i j" for i j
    by (rule alpha_ij_symmetric)
  show "pair_contribution op u p =
            alpha_ij op u (fst p) (snd p) * F_ij op u (fst p) (snd p) +
            alpha_ij op u (snd p) (fst p) * F_ij op u (snd p) (fst p)" for p
    by (simp add: pair_contribution_def)
  show "sum_list (map (pair_contribution op u) (pairs op)) = 0"
    by (rule pair_contributions_zero [OF assms(1)])
  let ?n = "length u"
  have nz: "mass op ! i \<noteq> 0" if "i < ?n" for i
    using assms(3,4) that by (metis less_irrefl nth_mem)
  have "dot (mass op) (computeDerivative_MCL op u) =
      sum_list (map (\<lambda>i. mass op ! i *
        (lowOrderUpdate op u ! i + limited_flux_sum op u i / mass op ! i)) [0 ..< ?n])"
    unfolding computeDerivative_MCL_def by (rule dot_map_upt [OF assms(3)])
  also have "\<dots> = sum_list (map (\<lambda>i. mass op ! i * lowOrderUpdate op u ! i +
        limited_flux_sum op u i) [0 ..< ?n])"
    by (rule arg_cong [where f = sum_list], rule map_cong [OF refl])
       (simp add: nz distrib_left)
  also have "\<dots> = sum_list (map (\<lambda>i. mass op ! i * lowOrderUpdate op u ! i) [0 ..< ?n]) +
      sum_list (map (limited_flux_sum op u) [0 ..< ?n])"
    by (simp add: sum_list_addf)
  also have "\<dots> = dot (mass op) (lowOrderUpdate op u)"
    by (simp add: limited_flux_total [OF assms(1,2)] dot_nth [OF assms(3,5)])
  finally show "dot (mass op) (computeDerivative_MCL op u) = dot (mass op) (lowOrderUpdate op u)" .
qed

text \<open>
  Three dofs in a row: the derivative is \<open>[1, -3/4, 1/2]\<close>, with masses \<open>[1, 2, 1]\<close>.
\<close>

theorem limiter_conserves_mass_witness:
  "computeDerivative_MCL example_MCL [1, 3, 2] = [1, - 3 / 4, 1 / 2] \<and>
   sum_list (map (pair_contribution example_MCL [1, 3, 2]) (pairs example_MCL)) = 0 \<and>
   dot (mass example_MCL) (computeDerivative_MCL example_MCL [1, 3, 2]) = 0"
proof -
  have h: "\<forall>p \<in> set (pairs example_MCL). (snd p, fst p) \<notin> set (pairs example_MCL)"
    "\<forall>p \<in> set (pairs example_MCL). fst p < length [1, 3, 2 :: real] \<and>
       snd p < length [1, 3, 2 :: real]"
    "length (mass example_MCL) = length [1, 3, 2 :: real]"
    "\<forall>m \<in> set (mass example_MCL). 0 < m"
    "length (lowOrderUpdate example_MCL [1, 3, 2]) = length [1, 3, 2 :: real]"
    by (simp_all add: example_MCL_fields)
  have "sum_list (map (pair_contribution example_MCL [1, 3, 2]) (pairs example_MCL)) = 0 \<and>
     dot (mass example_MCL) (computeDerivative_MCL example_MCL [1, 3, 2]) =
       dot (mass example_MCL) (lowOrderUpdate example_MCL [1, 3, 2])"
    using limiter_conserves_mass [OF h] by blast
  then show ?thesis
    by (simp add: example_MCL_derivative example_MCL_fields dot_def)
qed


subsection \<open>Error norms\<close>

text \<open>
  Claim C5, as amended. When a run completes, the error norms are computed from the
  final state and the domain size and written exactly when the problem both declares
  a known solution and requests file output (\<^verbatim>\<open>hyp->SolutionKnown && hyp->FileOutput\<close>),
  in the parallel driver by rank 0; the output of a completed run holds no other
  error report. The exit status is 0.
\<close>

theorem errors_reported_when_known_and_file_output:
  fixes e :: "'a senv_scheme" and pe :: "'b penv_scheme"
  shows
    "(hypsys_setup e args = Inr p \<and>
      time_loop e (run_config p) (run_hyp p) (run_solver p) (run_state p) = Some (Inr s) \<longrightarrow>
        (\<exists>out. hypsys_main e args = Some (Returned out 0) \<and>
           (\<forall>errors. WriteErrors errors \<in> set out \<longleftrightarrow>
              SolutionKnown (run_hyp p) \<and> FileOutput (run_hyp p) \<and>
              errors = ComputeErrors (run_hyp p) (sum_list (run_LumpedMassMat p)) (st_u s)))) \<and>
     (phypsys_setup pe args = Inr q \<and>
      ptime_loop pe (run_config q) (run_hyp q) (run_solver q) (run_state q) = Some (Inr s') \<longrightarrow>
        (\<exists>out. phypsys_main pe args = Some (Returned out 0) \<and>
           (\<forall>errors. WriteErrors errors \<in> set out \<longleftrightarrow>
              SolutionKnown (run_hyp q) \<and> FileOutput (run_hyp q) \<and> myid pe = 0 \<and>
              errors = ComputeErrors (run_hyp q)
                         (Allreduce_DomainSize pe (sum_list (run_LumpedMassMat q))) (st_u s'))))"
proof (intro conjI impI)
  assume a: "hypsys_setup e args = Inr p \<and>
      time_loop e (run_config p) (run_hyp p) (run_solver p) (run_state p) = Some (Inr s)"
  then have m: "hypsys_main e args = Some (Returned (hypsys_finish p s) 0)"
    by (simp add: hypsys_main_setup(2))
  have "\<forall>x. WriteErrors x \<notin> set (st_out s)"
    using a time_loop_no_errors hypsys_setup_Inr(6) by blast
  then have "\<forall>errors. WriteErrors errors \<in> set (hypsys_finish p s) \<longleftrightarrow>
              SolutionKnown (run_hyp p) \<and> FileOutput (run_hyp p) \<and>
              errors = ComputeErrors (run_hyp p) (sum_list (run_LumpedMassMat p)) (st_u s)"
    by (auto simp: hypsys_finish_def Let_def)
  with m show "\<exists>out. hypsys_main e args = Some (Returned out 0) \<and>
           (\<forall>errors. WriteErrors errors \<in> set out \<longleftrightarrow>
              SolutionKnown (run_hyp p) \<and> FileOutput (run_hyp p) \<and>
              errors = ComputeErrors (run_hyp p) (sum_list (run_LumpedMassMat p)) (st_u s))"
    by blast
next
  assume a: "phypsys_setup pe args = Inr q \<and>
      ptime_loop pe (run_config q) (run_hyp q) (run_solver q) (run_state q) = Some (Inr s')"
  then have m: "phypsys_main pe args = Some (Returned (phypsys_finish pe q s') 0)"
    by (simp add: phypsys_main_setup(2))
  have "\<forall>x. WriteErrors x \<notin> set (st_out s')"
    using a ptime_loop_no_errors phypsys_setup_Inr(6) by blast
  then have "\<forall>errors. WriteErrors errors \<in> set (phypsys_finish pe q s') \<longleftrightarrow>
              SolutionKnown (run_hyp q) \<and> FileOutput (run_hyp q) \<and> myid pe = 0 \<and>
              errors = ComputeErrors (run_hyp q)
                         (Allreduce_DomainSize pe (sum_list (run_LumpedMassMat q))) (st_u s')"
    by (auto simp: phypsys_finish_def Let_def)
  with m show "\<exists>out. phypsys_main pe args = Some (Returned out 0) \<and>
           (\<forall>errors. WriteErrors errors \<in> set out \<longleftrightarrow>
              SolutionKnown (run_hyp q) \<and> FileOutput (run_hyp q) \<and> myid pe = 0 \<and>
              errors = ComputeErrors (run_hyp q)
                         (Allreduce_DomainSize pe (sum_list (run_LumpedMassMat q))) (st_u s'))"
    by blast
qed

text \<open>
  The claim as stated, that the errors are reported whenever the solution is known,
  fails on a problem with a known solution that does not request file output: the
  runs below complete, and their whole output holds no error report.
\<close>

theorem errors_not_reported_without_file_output:
  "SolutionKnown (example_hyp False True False [2, 3]) \<and>
   hypsys_main (example_env (example_hyp False True False [2, 3]) example_check) one_step =
     Some (Returned [PrintOptions, NumberOfUnknowns 2, VisualizeField [2, 3],
                     TimeStep 1 1 None, VisualizeField [2, 3], MassDifference 0] 0) \<and>
   phypsys_main (example_penv 0 (example_hyp False True False [2, 3]) example_check) one_step =
     Some (Returned [PrintOptions, NumberOfUnknowns 4, VisualizeField [2, 3],
                     TimeStep 1 1 None, VisualizeField [2, 3], MassDifference 0] 0)"
  by (simp add: example_main pexample_main example_hyp_simps)

text \<open>
  A problem with a known solution that requests file output.
\<close>

theorem errors_reported_when_known_and_file_output_witness:
  "(\<exists>out. hypsys_main (example_env (example_hyp False True True [2, 3]) example_check)
            one_step = Some (Returned out 0) \<and>
          WriteErrors [13 / 2] \<in> set out) \<and>
   (\<exists>out. phypsys_main (example_penv 0 (example_hyp False True True [2, 3]) example_check)
            one_step = Some (Returned out 0) \<and>
          WriteErrors [13 / 4] \<in> set out)"
proof
  let ?h = "example_hyp False True True [2, 3]"
  let ?e = "example_env ?h example_check"
  let ?pe = "example_penv 0 ?h example_check"
  obtain p s where p: "hypsys_setup ?e one_step = Inr p"
    "time_loop ?e (run_config p) (run_hyp p) (run_solver p) (run_state p) = Some (Inr s)"
    "run_hyp p = ?h" "run_LumpedMassMat p = [1, 1]" "st_u s = [2, 3]"
    by (rule example_completed [of True True "[2, 3]" example_check])
  from errors_reported_when_known_and_file_output [where e = ?e and pe = ?pe and args = one_step and p = p and s = s, THEN conjunct1] p
  show "\<exists>out. hypsys_main ?e one_step = Some (Returned out 0) \<and> WriteErrors [13 / 2] \<in> set out"
    by (auto simp: example_hyp_simps dot_def)
next
  let ?h = "example_hyp False True True [2, 3]"
  let ?e = "example_env ?h example_check"
  let ?pe = "example_penv 0 ?h example_check"
  obtain p s where p: "phypsys_setup ?pe one_step = Inr p"
    "ptime_loop ?pe (run_config p) (run_hyp p) (run_solver p) (run_state p) = Some (Inr s)"
    "run_hyp p = ?h" "run_LumpedMassMat p = [1, 1]" "st_u s = [2, 3]"
    by (rule pexample_completed [of 0 True True "[2, 3]" example_check])
  from errors_reported_when_known_and_file_output [where e = ?e and pe = ?pe and args = one_step and q = p and s' = s, THEN conjunct2] p
  show "\<exists>out. phypsys_main ?pe one_step = Some (Returned out 0) \<and> WriteErrors [13 / 4] \<in> set out"
    by (auto simp: example_hyp_simps dot_def example_allreduce example_myid)
qed


subsection \<open>The pseudo time stepping warning\<close>

text \<open>
  Claim C6, as amended. On a command line the parser accepts that selects the integrator
  2 or 3 (the integrators other than Forward Euler that the drivers recognize) and the
  problem 0, the driver does not return before the loop: it enters the loop with
  \<^verbatim>\<open>done\<close> false, and its result is that of the loop followed by the final output and
  exit status 0. If the problem is steady-state seeking, the warning is in the output
  when the loop is entered, and a run that returns has exit status 0 and the warning in
  its output.
\<close>

theorem non_euler_steady_state_warns_and_proceeds:
  fixes e :: "'a senv_scheme" and pe :: "'b penv_scheme"
  assumes "Good args"
    and "odeSolverType (config (hypsys_options args)) = 2 \<or>
         odeSolverType (config (hypsys_options args)) = 3"
    and "ProblemNum (config (hypsys_options args)) = 0"
  shows
    "(\<exists>p. hypsys_setup e args = Inr p \<and> \<not> st_done (run_state p) \<and>
        hypsys_main e args =
          (case time_loop e (run_config p) (run_hyp p) (run_solver p) (run_state p) of
             None \<Rightarrow> None
           | Some (Inl f) \<Rightarrow> Some (Killed f)
           | Some (Inr s) \<Rightarrow> Some (Returned (hypsys_finish p s) 0)) \<and>
        (SteadyState (run_hyp p) \<longrightarrow>
           pseudo_time_warning \<in> set (st_out (run_state p)) \<and>
           (\<forall>out status. hypsys_main e args = Some (Returned out status) \<longrightarrow>
              status = 0 \<and> pseudo_time_warning \<in> set out))) \<and>
     (\<exists>p. phypsys_setup pe args = Inr p \<and> \<not> st_done (run_state p) \<and>
        phypsys_main pe args =
          (case ptime_loop pe (run_config p) (run_hyp p) (run_solver p) (run_state p) of
             None \<Rightarrow> None
           | Some (Inl f) \<Rightarrow> Some (Killed f)
           | Some (Inr s) \<Rightarrow> Some (Returned (phypsys_finish pe p s) 0)) \<and>
        (SteadyState (run_hyp p) \<longrightarrow>
           pseudo_time_warning \<in> set (st_out (run_state p)) \<and>
           (\<forall>out status. phypsys_main pe args = Some (Returned out status) \<longrightarrow>
              status = 0 \<and> pseudo_time_warning \<in> set out)))"
proof
  let ?n = "odeSolverType (config (hypsys_options args))"
  from assms(2) obtain solver where solver: "select_solver ?n = Some solver"
    by (auto simp: select_solver_def)
  obtain p where p: "hypsys_setup e args = Inr p" "\<not> st_done (run_state p)"
    "odeSolverType (run_config p) = ?n"
    by (rule hypsys_setup_recognized [OF assms(1) solver assms(3), of e])
  have m: "hypsys_main e args =
          (case time_loop e (run_config p) (run_hyp p) (run_solver p) (run_state p) of
             None \<Rightarrow> None
           | Some (Inl f) \<Rightarrow> Some (Killed f)
           | Some (Inr s) \<Rightarrow> Some (Returned (hypsys_finish p s) 0))"
    by (rule hypsys_main_setup(2) [OF p(1)])
  have w: "pseudo_time_warning \<in> set (st_out (run_state p))" if "SteadyState (run_hyp p)"
    using hypsys_setup_Inr_state(6) [OF p(1) _ that] p(3) assms(2) by auto
  have fin: "status = 0 \<and> pseudo_time_warning \<in> set out"
    if st: "SteadyState (run_hyp p)" and r: "hypsys_main e args = Some (Returned out status)"
    for out status
  proof -
    from r m obtain s where
      s: "time_loop e (run_config p) (run_hyp p) (run_solver p) (run_state p) = Some (Inr s)"
      and o: "out = hypsys_finish p s" "status = 0"
      by (auto split: option.splits sum.splits)
    from time_loop_out [OF s] obtain ys where "st_out s = st_out (run_state p) @ ys" ..
    with w [OF st] o show ?thesis
      by (simp add: hypsys_finish_def Let_def)
  qed
  show "\<exists>p. hypsys_setup e args = Inr p \<and> \<not> st_done (run_state p) \<and>
        hypsys_main e args =
          (case time_loop e (run_config p) (run_hyp p) (run_solver p) (run_state p) of
             None \<Rightarrow> None
           | Some (Inl f) \<Rightarrow> Some (Killed f)
           | Some (Inr s) \<Rightarrow> Some (Returned (hypsys_finish p s) 0)) \<and>
        (SteadyState (run_hyp p) \<longrightarrow>
           pseudo_time_warning \<in> set (st_out (run_state p)) \<and>
           (\<forall>out status. hypsys_main e args = Some (Returned out status) \<longrightarrow>
              status = 0 \<and> pseudo_time_warning \<in> set out))"
  proof (intro exI [of _ p] conjI impI allI)
    show "hypsys_setup e args = Inr p" by (rule p(1))
    show "\<not> st_done (run_state p)" by (rule p(2))
    show "hypsys_main e args =
          (case time_loop e (run_config p) (run_hyp p) (run_solver p) (run_state p) of
             None \<Rightarrow> None
           | Some (Inl f) \<Rightarrow> Some (Killed f)
           | Some (Inr s) \<Rightarrow> Some (Returned (hypsys_finish p s) 0))" by (rule m)
    show "pseudo_time_warning \<in> set (st_out (run_state p))" if "SteadyState (run_hyp p)"
      by (rule w [OF that])
    show "status = 0" "pseudo_time_warning \<in> set out"
      if "SteadyState (run_hyp p)" "hypsys_main e args = Some (Returned out status)"
      for out status
      using fin [OF that] by simp_all
  qed
next
  let ?n = "odeSolverType (config (phypsys_options args))"
  from assms(2) obtain solver where solver: "select_solver ?n = Some solver"
    by (auto simp: select_solver_def options_config_eq)
  have k: "ProblemNum (config (phypsys_options args)) = 0"
    using assms(3) by (simp add: options_config_eq)
  obtain p where p: "phypsys_setup pe args = Inr p" "\<not> st_done (run_state p)"
    "odeSolverType (run_config p) = ?n"
    by (rule phypsys_setup_recognized [OF assms(1) solver k, of pe])
  have m: "phypsys_main pe args =
          (case ptime_loop pe (run_config p) (run_hyp p) (run_solver p) (run_state p) of
             None \<Rightarrow> None
           | Some (Inl f) \<Rightarrow> Some (Killed f)
           | Some (Inr s) \<Rightarrow> Some (Returned (phypsys_finish pe p s) 0))"
    by (rule phypsys_main_setup(2) [OF p(1)])
  have w: "pseudo_time_warning \<in> set (st_out (run_state p))" if "SteadyState (run_hyp p)"
    using phypsys_setup_Inr_state(6) [OF p(1) _ that] p(3) assms(2)
    by (auto simp: options_config_eq)
  have fin: "status = 0 \<and> pseudo_time_warning \<in> set out"
    if st: "SteadyState (run_hyp p)" and r: "phypsys_main pe args = Some (Returned out status)"
    for out status
  proof -
    from r m obtain s where
      s: "ptime_loop pe (run_config p) (run_hyp p) (run_solver p) (run_state p) = Some (Inr s)"
      and o: "out = phypsys_finish pe p s" "status = 0"
      by (auto split: option.splits sum.splits)
    from ptime_loop_out [OF s] obtain ys where "st_out s = st_out (run_state p) @ ys" ..
    with w [OF st] o show ?thesis
      by (simp add: phypsys_finish_def Let_def)
  qed
  show "\<exists>p. phypsys_setup pe args = Inr p \<and> \<not> st_done (run_state p) \<and>
        phypsys_main pe args =
          (case ptime_loop pe (run_config p) (run_hyp p) (run_solver p) (run_state p) of
             None \<Rightarrow> None
           | Some (Inl f) \<Rightarrow> Some (Killed f)
           | Some (Inr s) \<Rightarrow> Some (Returned (phypsys_finish pe p s) 0)) \<and>
        (SteadyState (run_hyp p) \<longrightarrow>
           pseudo_time_warning \<in> set (st_out (run_state p)) \<and>
           (\<forall>out status. phypsys_main pe args = Some (Returned out status) \<longrightarrow>
              status = 0 \<and> pseudo_time_warning \<in> set out))"
  proof (intro exI [of _ p] conjI impI allI)
    show "phypsys_setup pe args = Inr p" by (rule p(1))
    show "\<not> st_done (run_state p)" by (rule p(2))
    show "phypsys_main pe args =
          (case ptime_loop pe (run_config p) (run_hyp p) (run_solver p) (run_state p) of
             None \<Rightarrow> None
           | Some (Inl f) \<Rightarrow> Some (Killed f)
           | Some (Inr s) \<Rightarrow> Some (Returned (phypsys_finish pe p s) 0))" by (rule m)
    show "pseudo_time_warning \<in> set (st_out (run_state p))" if "SteadyState (run_hyp p)"
      by (rule w [OF that])
    show "status = 0" "pseudo_time_warning \<in> set out"
      if "SteadyState (run_hyp p)" "phypsys_main pe args = Some (Returned out status)"
      for out status
      using fin [OF that] by simp_all
  qed
qed

text \<open>
  The claim as stated, for every integrator identifier other than 1, fails for the
  identifier 7 (\<^verbatim>\<open>-s 7\<close>): with a steady-state problem both drivers return \<open>-1\<close> before the
  loop, with the options and the message of the unknown solver as their only output,
  and no warning.
\<close>

theorem unknown_integrator_is_fatal_without_warning:
  "odeSolverType (config (hypsys_options (no_options\<lparr>opt_s := Some 7\<rparr>))) \<noteq> 1 \<and>
   SteadyState (Advection (example_env (example_hyp True False False [2, 3]) example_check)
     (config (hypsys_options (no_options\<lparr>opt_s := Some 7\<rparr>)))) \<and>
   hypsys_setup (example_env (example_hyp True False False [2, 3]) example_check)
     (no_options\<lparr>opt_s := Some 7\<rparr>) = Inl ([PrintOptions, UnknownODESolver 7], - 1) \<and>
   hypsys_main (example_env (example_hyp True False False [2, 3]) example_check)
     (no_options\<lparr>opt_s := Some 7\<rparr>) =
     Some (Returned [PrintOptions, UnknownODESolver 7] (- 1)) \<and>
   phypsys_setup (example_penv 0 (example_hyp True False False [2, 3]) example_check)
     (no_options\<lparr>opt_s := Some 7\<rparr>) = Inl ([PrintOptions, UnknownODESolver 7], - 1) \<and>
   phypsys_main (example_penv 0 (example_hyp True False False [2, 3]) example_check)
     (no_options\<lparr>opt_s := Some 7\<rparr>) =
     Some (Returned [PrintOptions, UnknownODESolver 7] (- 1)) \<and>
   pseudo_time_warning \<notin> set [PrintOptions, UnknownODESolver 7]"
proof -
  let ?h = "example_hyp True False False [2, 3]"
  let ?e = "example_env ?h example_check"
  let ?pe = "example_penv 0 ?h example_check"
  let ?args = "no_options\<lparr>opt_s := Some 7\<rparr>"
  have n: "odeSolverType (config (hypsys_options ?args)) = 7"
    by (simp add: example_options)
  have sel: "select_solver (odeSolverType (config (hypsys_options ?args))) = None"
    by (simp add: n select_solver_simps)
  have psel: "select_solver (odeSolverType (config (phypsys_options ?args))) = None"
    by (simp add: options_config_eq sel)
  have s: "hypsys_setup ?e ?args = Inl ([PrintOptions, UnknownODESolver 7], - 1)"
    using hypsys_setup_unknown_solver [OF example_options(3) sel, of ?e] by (simp add: n)
  have ps: "phypsys_setup ?pe ?args = Inl ([PrintOptions, UnknownODESolver 7], - 1)"
    using phypsys_setup_unknown_solver [OF example_options(3) psel, of ?pe]
    by (simp add: options_config_eq n example_myid)
  have st: "SteadyState (Advection ?e (config (hypsys_options ?args)))"
    by (simp add: example_Advection example_hyp_simps)
  have w: "pseudo_time_warning \<notin> set [PrintOptions, UnknownODESolver 7]"
    by (simp add: pseudo_time_warning_def)
  show ?thesis
    using n st s hypsys_main_setup(1) [OF s] ps phypsys_main_setup(1) [OF ps] w
    by simp
qed

text \<open>
  A steady-state problem with the default integrator, SSP RK3.
\<close>

theorem non_euler_steady_state_warns_and_proceeds_witness:
  "(\<exists>out. hypsys_main (example_env (example_hyp True False False [2, 3]) example_check)
            one_step = Some (Returned out 0) \<and> pseudo_time_warning \<in> set out) \<and>
   (\<exists>out. phypsys_main (example_penv 1 (example_hyp True False False [2, 3]) example_check)
            one_step = Some (Returned out 0) \<and> pseudo_time_warning \<in> set out)"
proof
  let ?h = "example_hyp True False False [2, 3]"
  let ?e = "example_env ?h example_check"
  let ?pe = "example_penv 1 ?h example_check"
  obtain p s where p: "hypsys_setup ?e one_step = Inr p"
    "time_loop ?e (run_config p) (run_hyp p) (run_solver p) (run_state p) = Some (Inr s)"
    "run_hyp p = ?h"
    by (rule example_completed_any [of True False False "[2, 3]" example_check])
  have m: "hypsys_main ?e one_step = Some (Returned (hypsys_finish p s) 0)"
    by (simp add: hypsys_main_setup(2) [OF p(1)] p(2))
  have st: "SteadyState (run_hyp p)"
    by (simp add: p(3) example_hyp_simps)
  have "\<exists>p. hypsys_setup ?e one_step = Inr p \<and> \<not> st_done (run_state p) \<and>
        hypsys_main ?e one_step =
          (case time_loop ?e (run_config p) (run_hyp p) (run_solver p) (run_state p) of
             None \<Rightarrow> None
           | Some (Inl f) \<Rightarrow> Some (Killed f)
           | Some (Inr s) \<Rightarrow> Some (Returned (hypsys_finish p s) 0)) \<and>
        (SteadyState (run_hyp p) \<longrightarrow>
           pseudo_time_warning \<in> set (st_out (run_state p)) \<and>
           (\<forall>out status. hypsys_main ?e one_step = Some (Returned out status) \<longrightarrow>
              status = 0 \<and> pseudo_time_warning \<in> set out))"
    by (rule non_euler_steady_state_warns_and_proceeds
      [where e = ?e and pe = ?pe and args = one_step, THEN conjunct1])
      (simp_all add: example_options)
  then obtain p' where "hypsys_setup ?e one_step = Inr p'"
    and "SteadyState (run_hyp p') \<longrightarrow>
           (\<forall>out status. hypsys_main ?e one_step = Some (Returned out status) \<longrightarrow>
              status = 0 \<and> pseudo_time_warning \<in> set out)"
    by blast
  with p(1) st m have "pseudo_time_warning \<in> set (hypsys_finish p s)"
    by simp
  with m show "\<exists>out. hypsys_main ?e one_step = Some (Returned out 0) \<and>
      pseudo_time_warning \<in> set out"
    by blast
next
  let ?h = "example_hyp True False False [2, 3]"
  let ?e = "example_env ?h example_check"
  let ?pe = "example_penv 1 ?h example_check"
  obtain p s where p: "phypsys_setup ?pe one_step = Inr p"
    "ptime_loop ?pe (run_config p) (run_hyp p) (run_solver p) (run_state p) = Some (Inr s)"
    "run_hyp p = ?h"
    by (rule pexample_completed_any [of 1 True False False "[2, 3]" example_check])
  have m: "phypsys_main ?pe one_step = Some (Returned (phypsys_finish ?pe p s) 0)"
    by (simp add: phypsys_main_setup(2) [OF p(1)] p(2))
  have st: "SteadyState (run_hyp p)"
    by (simp add: p(3) example_hyp_simps)
  have "\<exists>p. phypsys_setup ?pe one_step = Inr p \<and> \<not> st_done (run_state p) \<and>
        phypsys_main ?pe one_step =
          (case ptime_loop ?pe (run_config p) (run_hyp p) (run_solver p) (run_state p) of
             None \<Rightarrow> None
           | Some (Inl f) \<Rightarrow> Some (Killed f)
           | Some (Inr s) \<Rightarrow> Some (Returned (phypsys_finish ?pe p s) 0)) \<and>
        (SteadyState (run_hyp p) \<longrightarrow>
           pseudo_time_warning \<in> set (st_out (run_state p)) \<and>
           (\<forall>out status. phypsys_main ?pe one_step = Some (Returned out status) \<longrightarrow>
              status = 0 \<and> pseudo_time_warning \<in> set out))"
    by (rule non_euler_steady_state_warns_and_proceeds
      [where e = ?e and pe = ?pe and args = one_step, THEN conjunct2])
      (simp_all add: example_options)
  then obtain p' where "phypsys_setup ?pe one_step = Inr p'"
    and "SteadyState (run_hyp p') \<longrightarrow>
           (\<forall>out status. phypsys_main ?pe one_step = Some (Returned out status) \<longrightarrow>
              status = 0 \<and> pseudo_time_warning \<in> set out)"
    by blast
  with p(1) st m have "pseudo_time_warning \<in> set (phypsys_finish ?pe p s)"
    by simp
  with m show "\<exists>out. phypsys_main ?pe one_step = Some (Returned out 0) \<and>
      pseudo_time_warning \<in> set out"
    by blast
qed


subsection \<open>Mass drift\<close>

text \<open>
  Claim C7. When a run completes, the first thing printed after the loop's output is
  \<open>|InitialMass - FinalMass| / DomainSize\<close>, where the masses are the inner products of
  the assembled lumped mass vector with the initial and the final state and the domain
  size is the sum of the lumped masses (in the parallel driver each is the
  \<^verbatim>\<open>MPI_Allreduce\<close> sum and rank 0 prints), and the exit status is 0 whatever the
  value.
\<close>

theorem mass_drift_reported_and_exit_zero:
  fixes e :: "'a senv_scheme" and pe :: "'b penv_scheme"
  shows
    "(hypsys_setup e args = Inr p \<and>
      time_loop e (run_config p) (run_hyp p) (run_solver p) (run_state p) = Some (Inr s) \<longrightarrow>
        run_LumpedMassMat p =
          LumpedMassMat (Discretize e (MeshFile (hypsys_options args))
            (refinements (hypsys_options args)) (order (config (hypsys_options args)))) \<and>
        (\<exists>rest. hypsys_main e args =
           Some (Returned
             (st_out s @
              [MassDifference
                 (\<bar>dot (run_LumpedMassMat p) (u0 (run_hyp p)) -
                   dot (run_LumpedMassMat p) (st_u s)\<bar> / sum_list (run_LumpedMassMat p))] @
              rest) 0))) \<and>
     (phypsys_setup pe args = Inr q \<and>
      ptime_loop pe (run_config q) (run_hyp q) (run_solver q) (run_state q) = Some (Inr s') \<longrightarrow>
        run_LumpedMassMat q =
          LumpedMassMat (PDiscretize pe (MeshFile (phypsys_options args))
            (refinements (phypsys_options args)) (prefinements (phypsys_options args))
            (order (config (phypsys_options args)))) \<and>
        (\<exists>rest. phypsys_main pe args =
           Some (Returned
             (st_out s' @
              (if myid pe = 0
               then [MassDifference
                 (\<bar>Allreduce_InitialMass pe (dot (run_LumpedMassMat q) (u0 (run_hyp q))) -
                   Allreduce_FinalMass pe (dot (run_LumpedMassMat q) (st_u s'))\<bar> /
                  Allreduce_DomainSize pe (sum_list (run_LumpedMassMat q)))]
               else []) @
              rest) 0)))"
proof (intro conjI impI)
  assume a: "hypsys_setup e args = Inr p \<and>
      time_loop e (run_config p) (run_hyp p) (run_solver p) (run_state p) = Some (Inr s)"
  then show "run_LumpedMassMat p =
          LumpedMassMat (Discretize e (MeshFile (hypsys_options args))
            (refinements (hypsys_options args)) (order (config (hypsys_options args))))"
    by (simp add: hypsys_setup_mass)
  from a have "hypsys_main e args = Some (Returned (hypsys_finish p s) 0)"
    by (simp add: hypsys_main_setup(2))
  moreover from a have "run_InitialMass p = dot (run_LumpedMassMat p) (u0 (run_hyp p))"
    using hypsys_setup_Inr(4) by blast
  ultimately show "\<exists>rest. hypsys_main e args =
           Some (Returned
             (st_out s @
              [MassDifference
                 (\<bar>dot (run_LumpedMassMat p) (u0 (run_hyp p)) -
                   dot (run_LumpedMassMat p) (st_u s)\<bar> / sum_list (run_LumpedMassMat p))] @
              rest) 0)"
    by (simp add: hypsys_finish_def Let_def)
next
  assume a: "phypsys_setup pe args = Inr q \<and>
      ptime_loop pe (run_config q) (run_hyp q) (run_solver q) (run_state q) = Some (Inr s')"
  then show "run_LumpedMassMat q =
          LumpedMassMat (PDiscretize pe (MeshFile (phypsys_options args))
            (refinements (phypsys_options args)) (prefinements (phypsys_options args))
            (order (config (phypsys_options args))))"
    by (simp add: phypsys_setup_mass)
  from a have "phypsys_main pe args = Some (Returned (phypsys_finish pe q s') 0)"
    by (simp add: phypsys_main_setup(2))
  moreover from a have "run_InitialMass q =
      Allreduce_InitialMass pe (dot (run_LumpedMassMat q) (u0 (run_hyp q)))"
    using phypsys_setup_Inr(4) by blast
  ultimately show "\<exists>rest. phypsys_main pe args =
           Some (Returned
             (st_out s' @
              (if myid pe = 0
               then [MassDifference
                 (\<bar>Allreduce_InitialMass pe (dot (run_LumpedMassMat q) (u0 (run_hyp q))) -
                   Allreduce_FinalMass pe (dot (run_LumpedMassMat q) (st_u s'))\<bar> /
                  Allreduce_DomainSize pe (sum_list (run_LumpedMassMat q)))]
               else []) @
              rest) 0)"
    by (simp add: phypsys_finish_def Let_def)
qed

text \<open>
  A run of one step that leaves the state as it is: the drift printed is 0.
\<close>

theorem mass_drift_reported_and_exit_zero_witness:
  "(\<exists>before rest.
      hypsys_main (example_env (example_hyp False False True [2, 3]) example_check) one_step =
        Some (Returned (before @ [MassDifference 0] @ rest) 0)) \<and>
   (\<exists>before rest.
      phypsys_main (example_penv 0 (example_hyp False False True [2, 3]) example_check) one_step =
        Some (Returned (before @ [MassDifference 0] @ rest) 0))"
proof
  let ?h = "example_hyp False False True [2, 3]"
  let ?e = "example_env ?h example_check"
  let ?pe = "example_penv 0 ?h example_check"
  obtain p s where p: "hypsys_setup ?e one_step = Inr p"
    "time_loop ?e (run_config p) (run_hyp p) (run_solver p) (run_state p) = Some (Inr s)"
    "run_hyp p = ?h" "run_LumpedMassMat p = [1, 1]" "st_u s = [2, 3]"
    by (rule example_completed [of False True "[2, 3]" example_check])
  from mass_drift_reported_and_exit_zero
    [where e = ?e and pe = ?pe and args = one_step and p = p and s = s, THEN conjunct1] p
  show "\<exists>before rest. hypsys_main ?e one_step =
      Some (Returned (before @ [MassDifference 0] @ rest) 0)"
    by (auto simp: example_hyp_simps example_discretize)
next
  let ?h = "example_hyp False False True [2, 3]"
  let ?e = "example_env ?h example_check"
  let ?pe = "example_penv 0 ?h example_check"
  obtain p s where p: "phypsys_setup ?pe one_step = Inr p"
    "ptime_loop ?pe (run_config p) (run_hyp p) (run_solver p) (run_state p) = Some (Inr s)"
    "run_hyp p = ?h" "run_LumpedMassMat p = [1, 1]" "st_u s = [2, 3]"
    by (rule pexample_completed [of 0 False True "[2, 3]" example_check])
  from mass_drift_reported_and_exit_zero
    [where e = ?e and pe = ?pe and args = one_step and q = p and s' = s, THEN conjunct2] p
  show "\<exists>before rest. phypsys_main ?pe one_step =
      Some (Returned (before @ [MassDifference 0] @ rest) 0)"
    by (auto simp: example_hyp_simps example_myid example_discretize example_allreduce)
qed


subsection \<open>The step size\<close>

text \<open>
  Claim C8, as amended. In every iteration the step size handed to the integrator is
  \<open>min(config.dt, tFinal - t)\<close>. For an integrator that advances the time by at most
  the step size it is given, the time after every step is at most \<^verbatim>\<open>tFinal\<close>, and so is
  the time with which the loop returns. When the time after the step is at least
  \<open>tFinal - 1e-8 * config.dt\<close>, the loop ends with that iteration. The loop is entered
  with \<^verbatim>\<open>done\<close> false and the time 0, which is at most \<^verbatim>\<open>tFinal\<close> exactly when
  \<^verbatim>\<open>tFinal\<close> is not negative: only then does the time never exceed \<^verbatim>\<open>tFinal\<close>.
\<close>

theorem step_size_is_clipped_to_final_time:
  fixes e :: "'a senv_scheme" and pe :: "'b penv_scheme"
  assumes "\<forall>ev u t d. step_t (Step e solver ev u t d) \<le> t + d"
    and "\<forall>ev u t d. step_t (Step pe solver ev u t d) \<le> t + d"
    and "\<not> st_done s"
  shows
    "step_size cfg s = min (dt cfg) (tFinal cfg - st_t s) \<and>
     stepped e cfg solver s = Step e solver (st_evol s) (st_u s) (st_t s) (step_size cfg s) \<and>
     st_t (advance e cfg h solver s) = step_t (stepped e cfg solver s) \<and>
     st_t (advance e cfg h solver s) \<le> tFinal cfg \<and>
     st_t (advance pe cfg h solver s) \<le> tFinal cfg \<and>
     (tFinal cfg - 1 / 10 ^ 8 * dt cfg \<le> st_t (advance e cfg h solver s) \<longrightarrow>
        time_loop e cfg h solver s = Some (Inr (print_step h (advance e cfg h solver s)))) \<and>
     (tFinal cfg - 1 / 10 ^ 8 * dt cfg \<le> st_t (advance pe cfg h solver s) \<longrightarrow>
        ptime_loop pe cfg h solver s =
          Some (Inr (pprint_step (myid pe) h (advance pe cfg h solver s)))) \<and>
     (\<forall>s'. time_loop e cfg h solver s = Some (Inr s') \<longrightarrow> st_t s' \<le> tFinal cfg) \<and>
     (\<forall>s'. ptime_loop pe cfg h solver s = Some (Inr s') \<longrightarrow> st_t s' \<le> tFinal cfg) \<and>
     (\<forall>p. hypsys_setup e args = Inr p \<longrightarrow>
        \<not> st_done (run_state p) \<and> st_t (run_state p) = 0 \<and>
        tFinal (run_config p) = tFinal (config (hypsys_options args)) \<and>
        (st_t (run_state p) \<le> tFinal (run_config p) \<longleftrightarrow>
           0 \<le> tFinal (config (hypsys_options args)))) \<and>
     (\<forall>p. phypsys_setup pe args = Inr p \<longrightarrow>
        \<not> st_done (run_state p) \<and> st_t (run_state p) = 0 \<and>
        tFinal (run_config p) = tFinal (config (phypsys_options args)) \<and>
        (st_t (run_state p) \<le> tFinal (run_config p) \<longleftrightarrow>
           0 \<le> tFinal (config (phypsys_options args))))"
proof (intro conjI impI allI)
  show "step_size cfg s = min (dt cfg) (tFinal cfg - st_t s)"
    by (simp add: step_size_def)
  show "stepped e cfg solver s = Step e solver (st_evol s) (st_u s) (st_t s) (step_size cfg s)"
    by (simp add: stepped_def)
  show "st_t (advance e cfg h solver s) = step_t (stepped e cfg solver s)"
    by (simp add: advance_fields)
  show "st_t (advance e cfg h solver s) \<le> tFinal cfg"
    by (rule advance_time_bound [OF assms(1)])
  show "st_t (advance pe cfg h solver s) \<le> tFinal cfg"
    by (rule advance_time_bound [OF assms(2)])
  show "time_loop e cfg h solver s = Some (Inr (print_step h (advance e cfg h solver s)))"
    if "tFinal cfg - 1 / 10 ^ 8 * dt cfg \<le> st_t (advance e cfg h solver s)"
    using that by (intro time_loop_last assms(3) advance_done_at_end) (simp add: advance_fields)
  show "ptime_loop pe cfg h solver s =
          Some (Inr (pprint_step (myid pe) h (advance pe cfg h solver s)))"
    if "tFinal cfg - 1 / 10 ^ 8 * dt cfg \<le> st_t (advance pe cfg h solver s)"
    using that by (intro ptime_loop_last assms(3) advance_done_at_end) (simp add: advance_fields)
  show "st_t s' \<le> tFinal cfg" if "time_loop e cfg h solver s = Some (Inr s')" for s'
    by (rule time_loop_time_bound [OF assms(1) that assms(3)])
  show "st_t s' \<le> tFinal cfg" if "ptime_loop pe cfg h solver s = Some (Inr s')" for s'
    by (rule ptime_loop_time_bound [OF assms(2) that assms(3)])
  show "\<not> st_done (run_state p)" if "hypsys_setup e args = Inr p" for p
    by (rule hypsys_setup_Inr_state(1) [OF that])
  show "st_t (run_state p) = 0" if "hypsys_setup e args = Inr p" for p
    by (rule hypsys_setup_Inr_state(2) [OF that])
  show "tFinal (run_config p) = tFinal (config (hypsys_options args))"
    if "hypsys_setup e args = Inr p" for p
    by (rule hypsys_setup_Inr_evol(2) [OF that])
  show "st_t (run_state p) \<le> tFinal (run_config p) \<longleftrightarrow>
      0 \<le> tFinal (config (hypsys_options args))"
    if "hypsys_setup e args = Inr p" for p
    by (simp add: hypsys_setup_Inr_state(2) [OF that] hypsys_setup_Inr_evol(2) [OF that])
  show "\<not> st_done (run_state p)" if "phypsys_setup pe args = Inr p" for p
    by (rule phypsys_setup_Inr_state(1) [OF that])
  show "st_t (run_state p) = 0" if "phypsys_setup pe args = Inr p" for p
    by (rule phypsys_setup_Inr_state(2) [OF that])
  show "tFinal (run_config p) = tFinal (config (phypsys_options args))"
    if "phypsys_setup pe args = Inr p" for p
    by (rule phypsys_setup_Inr_evol(2) [OF that])
  show "st_t (run_state p) \<le> tFinal (run_config p) \<longleftrightarrow>
      0 \<le> tFinal (config (phypsys_options args))"
    if "phypsys_setup pe args = Inr p" for p
    by (simp add: phypsys_setup_Inr_state(2) [OF that] phypsys_setup_Inr_evol(2) [OF that])
qed

text \<open>
  The claim as stated, that the time never exceeds \<^verbatim>\<open>tFinal\<close>, fails for the final time
  \<open>-1\<close> (\<^verbatim>\<open>-tf -1\<close>): the loop is entered at time 0, above the final time, although the
  integrator advances the time by exactly the step size it is given. The step size of
  the first iteration is \<open>-1\<close>, and the loop returns at time \<open>-1\<close>.
\<close>

theorem final_time_exceeded_at_loop_entry:
  "(\<forall>solver ev u t d.
      step_t (Step (example_env (example_hyp False False False [2, 3]) example_check)
                solver ev u t d) \<le> t + d) \<and>
   (\<exists>p. hypsys_setup (example_env (example_hyp False False False [2, 3]) example_check)
           (no_options\<lparr>opt_tf := Some (- 1)\<rparr>) = Inr p \<and>
        \<not> st_done (run_state p) \<and> st_t (run_state p) = 0 \<and> tFinal (run_config p) = - 1 \<and>
        tFinal (run_config p) < st_t (run_state p) \<and>
        step_size (run_config p) (run_state p) = - 1 \<and>
        (\<exists>s'. time_loop (example_env (example_hyp False False False [2, 3]) example_check)
                 (run_config p) (run_hyp p) (run_solver p) (run_state p) = Some (Inr s') \<and>
              st_t s' = - 1)) \<and>
   (\<forall>solver ev u t d.
      step_t (Step (example_penv 0 (example_hyp False False False [2, 3]) example_check)
                solver ev u t d) \<le> t + d) \<and>
   (\<exists>p. phypsys_setup (example_penv 0 (example_hyp False False False [2, 3]) example_check)
           (no_options\<lparr>opt_tf := Some (- 1)\<rparr>) = Inr p \<and>
        \<not> st_done (run_state p) \<and> st_t (run_state p) = 0 \<and> tFinal (run_config p) = - 1 \<and>
        tFinal (run_config p) < st_t (run_state p) \<and>
        step_size (run_config p) (run_state p) = - 1 \<and>
        (\<exists>s'. ptime_loop (example_penv 0 (example_hyp False False False [2, 3]) example_check)
                 (run_config p) (run_hyp p) (run_solver p) (run_state p) = Some (Inr s') \<and>
              st_t s' = - 1))"
proof (intro conjI)
  let ?h = "example_hyp False False False [2, 3]"
  let ?e = "example_env ?h example_check"
  let ?pe = "example_penv 0 ?h example_check"
  show "\<forall>solver ev u t d. step_t (Step ?e solver ev u t d) \<le> t + d"
    by (simp add: example_Step)
  show "\<forall>solver ev u t d. step_t (Step ?pe solver ev u t d) \<le> t + d"
    by (simp add: example_Step)
  obtain p where p: "hypsys_setup ?e (no_options\<lparr>opt_tf := Some (- 1)\<rparr>) = Inr p"
    "\<not> st_done (run_state p)" "st_t (run_state p) = 0" "tFinal (run_config p) = - 1"
    "step_size (run_config p) (run_state p) = - 1"
    "time_loop ?e (run_config p) (run_hyp p) (run_solver p) (run_state p) =
       Some (Inr (print_step (run_hyp p)
         (advance ?e (run_config p) (run_hyp p) (run_solver p) (run_state p))))"
    "st_t (advance ?e (run_config p) (run_hyp p) (run_solver p) (run_state p)) = - 1"
    by (rule negative_final_time_prepared [of ?h example_check])
  show "\<exists>p. hypsys_setup ?e (no_options\<lparr>opt_tf := Some (- 1)\<rparr>) = Inr p \<and>
        \<not> st_done (run_state p) \<and> st_t (run_state p) = 0 \<and> tFinal (run_config p) = - 1 \<and>
        tFinal (run_config p) < st_t (run_state p) \<and>
        step_size (run_config p) (run_state p) = - 1 \<and>
        (\<exists>s'. time_loop ?e (run_config p) (run_hyp p) (run_solver p) (run_state p) =
                 Some (Inr s') \<and> st_t s' = - 1)"
    using p by (intro exI [of _ p]) (simp add: print_step_fields)
  obtain q where q: "phypsys_setup ?pe (no_options\<lparr>opt_tf := Some (- 1)\<rparr>) = Inr q"
    "\<not> st_done (run_state q)" "st_t (run_state q) = 0" "tFinal (run_config q) = - 1"
    "step_size (run_config q) (run_state q) = - 1"
    "ptime_loop ?pe (run_config q) (run_hyp q) (run_solver q) (run_state q) =
       Some (Inr (pprint_step 0 (run_hyp q)
         (advance ?pe (run_config q) (run_hyp q) (run_solver q) (run_state q))))"
    "st_t (advance ?pe (run_config q) (run_hyp q) (run_solver q) (run_state q)) = - 1"
    by (rule pnegative_final_time_prepared [of 0 ?h example_check])
  show "\<exists>p. phypsys_setup ?pe (no_options\<lparr>opt_tf := Some (- 1)\<rparr>) = Inr p \<and>
        \<not> st_done (run_state p) \<and> st_t (run_state p) = 0 \<and> tFinal (run_config p) = - 1 \<and>
        tFinal (run_config p) < st_t (run_state p) \<and>
        step_size (run_config p) (run_state p) = - 1 \<and>
        (\<exists>s'. ptime_loop ?pe (run_config p) (run_hyp p) (run_solver p) (run_state p) =
                 Some (Inr s') \<and> st_t s' = - 1)"
    using q by (intro exI [of _ q]) (simp add: pprint_step_fields)
qed

text \<open>
  At time \<open>9/10\<close> with final time 1 and time step \<open>3/10\<close>, the step size is \<open>1/10\<close> and
  the loop ends at time 1. The run with these options enters the loop at time 0, below
  the final time.
\<close>

theorem step_size_is_clipped_to_final_time_witness:
  "step_size (config (hypsys_options short_steps))
     (example_state (example_hyp False False False [2, 3]) (9 / 10)) = 1 / 10 \<and>
   st_t (advance (example_env (example_hyp False False False [2, 3]) example_check)
          (config (hypsys_options short_steps)) (example_hyp False False False [2, 3])
          ForwardEulerSolver (example_state (example_hyp False False False [2, 3]) (9 / 10))) = 1 \<and>
   (\<exists>s'. time_loop (example_env (example_hyp False False False [2, 3]) example_check)
          (config (hypsys_options short_steps)) (example_hyp False False False [2, 3])
          ForwardEulerSolver (example_state (example_hyp False False False [2, 3]) (9 / 10))
        = Some (Inr s') \<and> st_t s' = 1) \<and>
   (\<exists>s'. ptime_loop (example_penv 0 (example_hyp False False False [2, 3]) example_check)
          (config (hypsys_options short_steps)) (example_hyp False False False [2, 3])
          ForwardEulerSolver (example_state (example_hyp False False False [2, 3]) (9 / 10))
        = Some (Inr s') \<and> st_t s' = 1) \<and>
   (\<exists>p. hypsys_setup (example_env (example_hyp False False False [2, 3]) example_check)
           short_steps = Inr p \<and>
        st_t (run_state p) = 0 \<and> tFinal (run_config p) = 1 \<and>
        st_t (run_state p) \<le> tFinal (run_config p)) \<and>
   (\<exists>p. phypsys_setup (example_penv 0 (example_hyp False False False [2, 3]) example_check)
           short_steps = Inr p \<and>
        st_t (run_state p) = 0 \<and> tFinal (run_config p) = 1 \<and>
        st_t (run_state p) \<le> tFinal (run_config p))"
proof -
  let ?h = "example_hyp False False False [2, 3]"
  let ?e = "example_env ?h example_check"
  let ?pe = "example_penv 0 ?h example_check"
  let ?cfg = "config (hypsys_options short_steps)"
  let ?s = "example_state ?h (9 / 10)"
  have sz: "step_size ?cfg ?s = 1 / 10"
    by (simp add: step_size_def short_steps_config example_state_fields)
  have t: "st_t (advance ?e ?cfg ?h ForwardEulerSolver ?s) = 1"
    "st_t (advance ?pe ?cfg ?h ForwardEulerSolver ?s) = 1"
    by (simp_all add: advance_fields example_stepped sz example_state_fields)
  have a: "\<forall>ev u t d. step_t (Step ?e ForwardEulerSolver ev u t d) \<le> t + d"
    "\<forall>ev u t d. step_t (Step ?pe ForwardEulerSolver ev u t d) \<le> t + d"
    "\<not> st_done ?s"
    by (simp_all add: example_Step example_state_fields)
  note T = step_size_is_clipped_to_final_time
    [where e = ?e and pe = ?pe and solver = ForwardEulerSolver and s = ?s and cfg = ?cfg
       and h = ?h and args = short_steps, OF a]
  from T have l: "tFinal ?cfg - 1 / 10 ^ 8 * dt ?cfg \<le> st_t (advance ?e ?cfg ?h ForwardEulerSolver ?s) \<longrightarrow>
        time_loop ?e ?cfg ?h ForwardEulerSolver ?s =
          Some (Inr (print_step ?h (advance ?e ?cfg ?h ForwardEulerSolver ?s)))"
    by (elim conjE)
  from T have pl: "tFinal ?cfg - 1 / 10 ^ 8 * dt ?cfg \<le> st_t (advance ?pe ?cfg ?h ForwardEulerSolver ?s) \<longrightarrow>
        ptime_loop ?pe ?cfg ?h ForwardEulerSolver ?s =
          Some (Inr (pprint_step (myid ?pe) ?h (advance ?pe ?cfg ?h ForwardEulerSolver ?s)))"
    by (elim conjE)
  from T have i: "\<forall>p. hypsys_setup ?e short_steps = Inr p \<longrightarrow>
        \<not> st_done (run_state p) \<and> st_t (run_state p) = 0 \<and>
        tFinal (run_config p) = tFinal (config (hypsys_options short_steps)) \<and>
        (st_t (run_state p) \<le> tFinal (run_config p) \<longleftrightarrow>
           0 \<le> tFinal (config (hypsys_options short_steps)))"
    by (elim conjE)
  from T have pi: "\<forall>p. phypsys_setup ?pe short_steps = Inr p \<longrightarrow>
        \<not> st_done (run_state p) \<and> st_t (run_state p) = 0 \<and>
        tFinal (run_config p) = tFinal (config (phypsys_options short_steps)) \<and>
        (st_t (run_state p) \<le> tFinal (run_config p) \<longleftrightarrow>
           0 \<le> tFinal (config (phypsys_options short_steps)))"
    by (elim conjE)
  have r: "\<exists>s'. time_loop ?e ?cfg ?h ForwardEulerSolver ?s = Some (Inr s') \<and> st_t s' = 1"
    using l by (simp add: t short_steps_config print_step_fields)
  have pr: "\<exists>s'. ptime_loop ?pe ?cfg ?h ForwardEulerSolver ?s = Some (Inr s') \<and> st_t s' = 1"
    using pl by (simp add: t short_steps_config pprint_step_fields)
  obtain p where p: "hypsys_setup ?e short_steps = Inr p"
    by (rule hypsys_setup_recognized [OF short_steps_options(1) _ short_steps_options(3), of _ ?e])
       (simp add: short_steps_options select_solver_simps)
  obtain q where q: "phypsys_setup ?pe short_steps = Inr q"
    by (rule phypsys_setup_recognized [OF short_steps_options(1), where e = ?pe])
       (simp_all add: options_config_eq short_steps_options select_solver_simps)
  have ip: "\<exists>p. hypsys_setup ?e short_steps = Inr p \<and>
        st_t (run_state p) = 0 \<and> tFinal (run_config p) = 1 \<and>
        st_t (run_state p) \<le> tFinal (run_config p)"
    using i p by (intro exI [of _ p]) (simp add: short_steps_config)
  have iq: "\<exists>p. phypsys_setup ?pe short_steps = Inr p \<and>
        st_t (run_state p) = 0 \<and> tFinal (run_config p) = 1 \<and>
        st_t (run_state p) \<le> tFinal (run_config p)"
    using pi q by (intro exI [of _ q]) (simp add: options_config_eq short_steps_config)
  show ?thesis
    using sz t(1) r pr ip iq by (intro conjI)
qed


subsection \<open>The default scheme\<close>

text \<open>
  Claim C9. Without the option \<^verbatim>\<open>-e\<close> both drivers run the Standard scheme (value 0);
  the scheme is MCL exactly when the option is given with the value 1; and the
  evolution operator is constructed with the scheme so chosen.
\<close>

theorem default_scheme_is_standard:
  fixes e :: "'a senv_scheme" and pe :: "'b penv_scheme"
  shows
    "Standard = 0 \<and> MCL = 1 \<and>
     (opt_e args = None \<longrightarrow>
        scheme (hypsys_options args) = Standard \<and> scheme (phypsys_options args) = Standard) \<and>
     (scheme (hypsys_options args) = MCL \<longleftrightarrow> opt_e args = Some 1) \<and>
     (scheme (phypsys_options args) = MCL \<longleftrightarrow> opt_e args = Some 1) \<and>
     (hypsys_setup e args = Inr p \<longrightarrow>
        evol_scheme (st_evol (run_state p)) = scheme (hypsys_options args)) \<and>
     (phypsys_setup pe args = Inr q \<longrightarrow>
        evol_scheme (st_evol (run_state q)) = scheme (phypsys_options args))"
  using hypsys_setup_Inr(5) [of e args p] phypsys_setup_Inr(5) [of pe args q]
  by (auto simp: hypsys_options_def phypsys_options_def AddOption_def Standard_def MCL_def
      split: option.splits)

text \<open>
  No option, the option with the values 1 and 2, and the operator of a run without it.
\<close>

theorem default_scheme_is_standard_witness:
  "scheme (hypsys_options no_options) = Standard \<and>
   scheme (phypsys_options no_options) = Standard \<and>
   scheme (hypsys_options (no_options\<lparr>opt_e := Some 1\<rparr>)) = MCL \<and>
   scheme (phypsys_options (no_options\<lparr>opt_e := Some 1\<rparr>)) = MCL \<and>
   scheme (hypsys_options (no_options\<lparr>opt_e := Some 2\<rparr>)) \<noteq> MCL \<and>
   (\<exists>p. hypsys_setup (example_env (example_hyp False False False [2, 3]) example_check)
          one_step = Inr p \<and> evol_scheme (st_evol (run_state p)) = Standard)"
proof -
  let ?e = "example_env (example_hyp False False False [2, 3]) example_check"
  let ?pe = "example_penv 0 (example_hyp False False False [2, 3]) example_check"
  obtain p where p: "hypsys_setup ?e one_step = Inr p"
    by (rule example_prepared [of False False False "[2, 3]" example_check])
  have o: "opt_e no_options = None" "opt_e one_step = None"
    "opt_e (no_options\<lparr>opt_e := Some i\<rparr>) = Some i" for i
    by (simp_all add: no_options_def one_step_def)
  from default_scheme_is_standard [where e = ?e and pe = ?pe and args = no_options]
    default_scheme_is_standard [where e = ?e and pe = ?pe and args = "no_options\<lparr>opt_e := Some 1\<rparr>"]
    default_scheme_is_standard [where e = ?e and pe = ?pe and args = "no_options\<lparr>opt_e := Some 2\<rparr>"]
    default_scheme_is_standard [where e = ?e and pe = ?pe and args = one_step and p = p] p
  show ?thesis
    by (simp add: o)
qed


subsection \<open>The first residual\<close>




end
